theory Spec2Isabelle
  imports Main "HOL-Library.Word"
begin

section \<open>JavaScript strings\<close>

text \<open>
  A JavaScript string is a sequence of UTF-16 code units. The regular expressions of the
  converter carry no \<open>u\<close> flag, so they too work on code units. ASCII literals of the
  source are written with \<open>js\<close>; the Japanese messages are given by their code units.
\<close>

type_synonym jschar = "16 word"
type_synonym jsstring = "jschar list"

definition js :: "string \<Rightarrow> jsstring" where
  "js s = map (\<lambda>c. of_nat (of_char c)) s"

text \<open>Line terminators: LF, CR, LS, PS. The dot of a pattern without the \<open>s\<close> flag
  refuses them.\<close>

definition is_line_terminator :: "jschar \<Rightarrow> bool" where
  "is_line_terminator c \<longleftrightarrow> c = 0x0A \<or> c = 0x0D \<or> c = 0x2028 \<or> c = 0x2029"

text \<open>White space and line terminators: what \<open>String.prototype.trim\<close> strips and what
  \<open>\s\<close> matches.\<close>

definition is_space :: "jschar \<Rightarrow> bool" where
  "is_space c \<longleftrightarrow>
     c = 0x09 \<or> c = 0x0A \<or> c = 0x0B \<or> c = 0x0C \<or> c = 0x0D \<or> c = 0x20 \<or> c = 0xA0 \<or>
     c = 0x1680 \<or> (0x2000 \<le> c \<and> c \<le> 0x200A) \<or> c = 0x2028 \<or> c = 0x2029 \<or>
     c = 0x202F \<or> c = 0x205F \<or> c = 0x3000 \<or> c = 0xFEFF"

definition trim :: "jsstring \<Rightarrow> jsstring" where
  "trim s = rev (dropWhile is_space (rev (dropWhile is_space s)))"

text \<open>\<open>String.prototype.includes\<close>: the search string occurs at some index.\<close>

fun starts_with :: "jsstring \<Rightarrow> jsstring \<Rightarrow> bool" where
  "starts_with s [] = True"
| "starts_with [] (p # ps) = False"
| "starts_with (c # s) (p # ps) = (c = p \<and> starts_with s ps)"

fun includes_str :: "jsstring \<Rightarrow> jsstring \<Rightarrow> bool" where
  "includes_str [] sub = starts_with [] sub"
| "includes_str (c # s) sub = (starts_with (c # s) sub \<or> includes_str s sub)"

text \<open>\<open>Array.prototype.join\<close>.\<close>

fun join :: "jsstring \<Rightarrow> jsstring list \<Rightarrow> jsstring" where
  "join sep [] = []"
| "join sep [x] = x"
| "join sep (x # y # ys) = x @ sep @ join sep (y # ys)"

text \<open>The decimal digits of a number, as the template literal \<open>${counter++}\<close> prints it.\<close>

fun decimal :: "nat \<Rightarrow> jsstring" where
  "decimal n = (if n < 10 then [0x30 + of_nat n]
                else decimal (n div 10) @ [0x30 + of_nat (n mod 10)])"

section \<open>Regular expressions, as far as the converter uses them\<close>

text \<open>
  The patterns of \<open>convertHtmlToMarkdown\<close> are sequences of single characters, character
  classes under a greedy or lazy star, capturing groups without nesting and alternations of
  literal words. A pattern is a list of items; \<open>Opn\<close> and \<open>Cls\<close> are the parentheses of
  a capturing group, numbered from the left.
\<close>

record flags =
  ignoreCase :: bool
  dotAll :: bool

datatype atom =
    Lit jschar
  | Dot
  | Space
  | OneOf "jschar list"
  | NoneOf "jschar list"

datatype item =
    One atom
  | Star atom
  | Lazy atom
  | Plus atom
  | Opn
  | Cls
  | Alt "jsstring list"

text \<open>
  Canonicalisation under the \<open>i\<close> flag (no \<open>u\<close> flag): a character is compared by its
  upper case, but a character from 128 on whose upper case is below 128 stays itself. Every
  literal of the patterns below is ASCII, so only the ASCII letters matter.
\<close>

definition canon :: "jschar \<Rightarrow> jschar" where
  "canon c = (if 0x61 \<le> c \<and> c \<le> 0x7A then c - 0x20 else c)"

fun atom_ok :: "flags \<Rightarrow> atom \<Rightarrow> jschar \<Rightarrow> bool" where
  "atom_ok f (Lit a) c = (if ignoreCase f then canon c = canon a else c = a)"
| "atom_ok f Dot c = (dotAll f \<or> \<not> is_line_terminator c)"
| "atom_ok f Space c = is_space c"
| "atom_ok f (OneOf cs) c = (c \<in> set cs)"
| "atom_ok f (NoneOf cs) c = (c \<notin> set cs)"

text \<open>A match in progress: the text matched so far, the groups closed so far, and the
  text since the last opening parenthesis.\<close>

record match =
  matched :: jsstring
  groups :: "jsstring list"
  opened :: jsstring

definition start :: match where
  "start = \<lparr>matched = [], groups = [], opened = []\<rparr>"

definition eat :: "jsstring \<Rightarrow> match \<Rightarrow> match" where
  "eat cs m = m\<lparr>matched := matched m @ cs, opened := opened m @ cs\<rparr>"

fun lit_prefix :: "flags \<Rightarrow> jsstring \<Rightarrow> jsstring \<Rightarrow> bool" where
  "lit_prefix f [] s = True"
| "lit_prefix f (a # w) [] = False"
| "lit_prefix f (a # w) (c # s) = (atom_ok f (Lit a) c \<and> lit_prefix f w s)"

text \<open>The size of an item, for the termination of the matcher: an alternation shrinks
  as its words are tried.\<close>

fun weight :: "item \<Rightarrow> nat" where
  "weight (Alt ws) = Suc (length ws)"
| "weight _ = 1"

text \<open>
  The backtracking matcher, anchored at the head of the input: the first match in the
  priority order of ECMAScript (a greedy star tries the longer match first, a lazy star the
  shorter one, an alternation its words from the left).
\<close>

function rmatch :: "flags \<Rightarrow> item list \<Rightarrow> jsstring \<Rightarrow> match \<Rightarrow> match option" where
  "rmatch f [] s m = Some m"
| "rmatch f (One a # r) [] m = None"
| "rmatch f (One a # r) (c # s) m =
     (if atom_ok f a c then rmatch f r s (eat [c] m) else None)"
| "rmatch f (Plus a # r) [] m = None"
| "rmatch f (Plus a # r) (c # s) m =
     (if atom_ok f a c then rmatch f (Star a # r) s (eat [c] m) else None)"
| "rmatch f (Star a # r) [] m = rmatch f r [] m"
| "rmatch f (Star a # r) (c # s) m =
     (if atom_ok f a c
      then (case rmatch f (Star a # r) s (eat [c] m) of
              Some res \<Rightarrow> Some res
            | None \<Rightarrow> rmatch f r (c # s) m)
      else rmatch f r (c # s) m)"
| "rmatch f (Lazy a # r) [] m = rmatch f r [] m"
| "rmatch f (Lazy a # r) (c # s) m =
     (case rmatch f r (c # s) m of
        Some res \<Rightarrow> Some res
      | None \<Rightarrow> (if atom_ok f a c then rmatch f (Lazy a # r) s (eat [c] m) else None))"
| "rmatch f (Opn # r) s m = rmatch f r s (m\<lparr>opened := []\<rparr>)"
| "rmatch f (Cls # r) s m = rmatch f r s (m\<lparr>groups := groups m @ [opened m]\<rparr>)"
| "rmatch f (Alt [] # r) s m = None"
| "rmatch f (Alt (w # ws) # r) s m =
     (if lit_prefix f w s
      then (case rmatch f r (drop (length w) s) (eat (take (length w) s) m) of
              Some res \<Rightarrow> Some res
            | None \<Rightarrow> rmatch f (Alt ws # r) s m)
      else rmatch f (Alt ws # r) s m)"
  by pat_completeness auto
termination
  by (relation "measures [\<lambda>(f, r, s, m). length s, \<lambda>(f, r, s, m). sum_list (map weight r)]")
     auto

text \<open>
  \<open>GetSubstitution\<close>: the replacement text of a string template. \<open>$$\<close> is a dollar,
  \<open>$&\<close> the matched text, \<open>$n\<close> the n-th group when the pattern has that many groups.
  No pattern below has ten groups, so the two-digit form never applies, and no template
  uses the other forms.
\<close>

fun expand :: "jsstring \<Rightarrow> match \<Rightarrow> jsstring" where
  "expand [] m = []"
| "expand [c] m = [c]"
| "expand (c # d # t) m =
     (if c = 0x24 then
        (if d = 0x24 then 0x24 # expand t m
         else if d = 0x26 then matched m @ expand t m
         else if 0x31 \<le> d \<and> d \<le> 0x39 \<and> unat (d - 0x30) \<le> length (groups m)
           then groups m ! (unat (d - 0x31)) @ expand t m
         else c # expand (d # t) m)
      else c # expand (d # t) m)"

text \<open>
  \<open>String.prototype.replace\<close> with a global pattern. The matches are found from left to
  right, each search starting where the last match ended (one further after an empty
  match); the text between the matches is kept. The replacer is called once for each match,
  in order, and may keep a state of its own between the calls (a closure's variable).
\<close>

function replace_loop ::
  "flags \<Rightarrow> item list \<Rightarrow> ('st \<Rightarrow> match \<Rightarrow> jsstring \<times> 'st) \<Rightarrow> 'st \<Rightarrow> jsstring \<Rightarrow> jsstring" where
  "replace_loop f rx repl st [] =
     (case rmatch f rx [] start of None \<Rightarrow> [] | Some m \<Rightarrow> fst (repl st m))"
| "replace_loop f rx repl st (c # s) =
     (case rmatch f rx (c # s) start of
        None \<Rightarrow> c # replace_loop f rx repl st s
      | Some m \<Rightarrow>
          (case repl st m of (out, st') \<Rightarrow>
             if matched m = [] then out @ c # replace_loop f rx repl st' s
             else out @ replace_loop f rx repl st' (drop (length (matched m) - 1) s)))"
  by pat_completeness auto
termination
  by (relation "measure (\<lambda>(f, rx, repl, st, s). length s)") auto

text \<open>A string as the replacement: its \<open>$\<close> forms are expanded for each match.\<close>

definition replace_str :: "flags \<Rightarrow> item list \<Rightarrow> jsstring \<Rightarrow> jsstring \<Rightarrow> jsstring" where
  "replace_str f rx template s = replace_loop f rx (\<lambda>st m. (expand template m, st)) () s"

text \<open>A function as the replacement: what it returns is inserted as it is, with no
  expansion of \<open>$\<close> forms.\<close>

definition replace_fn ::
  "flags \<Rightarrow> item list \<Rightarrow> ('st \<Rightarrow> match \<Rightarrow> jsstring \<times> 'st) \<Rightarrow> 'st \<Rightarrow> jsstring \<Rightarrow> jsstring" where
  "replace_fn f rx fn st s = replace_loop f rx fn st s"

text \<open>The first group of a match, the second argument of a replacer function. Every
  pattern that has a replacer function has one group, which takes part in every match.\<close>

definition group1 :: "match \<Rightarrow> jsstring" where
  "group1 m = (case groups m of [] \<Rightarrow> [] | g # _ \<Rightarrow> g)"

section \<open>The converter (readability.ts, the version on @mozilla/readability)\<close>

subsection \<open>Constants\<close>

definition DEFAULT_ERROR_MESSAGE :: jsstring where
  "DEFAULT_ERROR_MESSAGE =
     [0x30DA, 0x30FC, 0x30B8, 0x306E, 0x5909, 0x63DB, 0x306B, 0x5931, 0x6557, 0x3057, 0x307E,
      0x3057, 0x305F]"

definition MINIMUM_CHAR_THRESHOLD :: nat where
  "MINIMUM_CHAR_THRESHOLD = 100"

definition CONTENT_PROPERTY_ERROR :: jsstring where
  "CONTENT_PROPERTY_ERROR =
     [0x62BD, 0x51FA, 0x3055, 0x308C, 0x305F, 0x30B3, 0x30F3, 0x30C6, 0x30F3, 0x30C4, 0x306B]
     @ js ''content''
     @ [0x30D7, 0x30ED, 0x30D1, 0x30C6, 0x30A3, 0x304C, 0x3042, 0x308A, 0x307E, 0x305B, 0x3093]"

definition EMPTY_MARKDOWN_ERROR :: jsstring where
  "EMPTY_MARKDOWN_ERROR =
     [0x5909, 0x63DB, 0x3055, 0x308C, 0x305F, 0x30DE, 0x30FC, 0x30AF, 0x30C0, 0x30A6, 0x30F3,
      0x304C, 0x7A7A, 0x3067, 0x3059]"

definition EXTRACTION_ERROR :: jsstring where
  "EXTRACTION_ERROR =
     [0x8A18, 0x4E8B, 0x5185, 0x5BB9, 0x306E, 0x62BD, 0x51FA, 0x306B, 0x5931, 0x6557, 0x3057,
      0x307E, 0x3057, 0x305F]"

definition CLAUDE_AI_DOMAIN :: jsstring where
  "CLAUDE_AI_DOMAIN = js ''claude.ai''"

definition CLAUDE_AI_ATTRIBUTE :: jsstring where
  "CLAUDE_AI_ATTRIBUTE = js ''data-test-render-count''"

definition SECTION_SEPARATOR :: jsstring where
  "SECTION_SEPARATOR = js ''\<newline>\<newline>---\<newline>\<newline>''"

definition CLAUDE_AI_NO_ELEMENTS_ERROR :: jsstring where
  "CLAUDE_AI_NO_ELEMENTS_ERROR =
     js ''claude.ai''
     @ [0x3067, 0x5BFE, 0x8C61, 0x8981, 0x7D20, 0x304C, 0x898B, 0x3064, 0x304B, 0x308A, 0x307E,
        0x305B, 0x3093, 0x3067, 0x3057, 0x305F]"

subsection \<open>convertHtmlToMarkdown\<close>

definition flags_gi :: flags where
  "flags_gi = \<lparr>ignoreCase = True, dotAll = False\<rparr>"

definition flags_gis :: flags where
  "flags_gis = \<lparr>ignoreCase = True, dotAll = True\<rparr>"

definition flags_g :: flags where
  "flags_g = \<lparr>ignoreCase = False, dotAll = False\<rparr>"

definition lits :: "string \<Rightarrow> item list" where
  "lits s = map (\<lambda>c. One (Lit c)) (js s)"

text \<open>The classes \<open>[^>]\<close>, \<open>["']\<close> and \<open>[^"']\<close>.\<close>

definition not_gt :: atom where
  "not_gt = NoneOf [0x3E]"

definition quote :: atom where
  "quote = OneOf [0x22, 0x27]"

definition not_quote :: atom where
  "not_quote = NoneOf [0x22, 0x27]"

text \<open>The pattern \<open><TAG[^>]*>(.*?)<\/TAG>\<close>, for a tag name.\<close>

definition wrapped :: "string \<Rightarrow> item list" where
  "wrapped tag =
     lits (''<'' @ tag) @ [Star not_gt] @ lits ''>'' @ [Opn, Lazy Dot, Cls]
     @ lits (''</'' @ tag @ ''>'')"

text \<open>\<open><(strong|b)[^>]*>(.*?)<\/(strong|b)>\<close> and \<open><(em|i)[^>]*>(.*?)<\/(em|i)>\<close>.\<close>

definition wrapped_alt :: "string list \<Rightarrow> item list" where
  "wrapped_alt tags =
     lits ''<'' @ [Opn, Alt (map js tags), Cls, Star not_gt] @ lits ''>''
     @ [Opn, Lazy Dot, Cls]
     @ lits ''</'' @ [Opn, Alt (map js tags), Cls] @ lits ''>''"

text \<open>\<open><a[^>]*href=["']([^"']*)["'][^>]*>(.*?)<\/a>\<close>\<close>

definition rx_link :: "item list" where
  "rx_link =
     lits ''<a'' @ [Star not_gt] @ lits ''href=''
     @ [One quote, Opn, Star not_quote, Cls, One quote, Star not_gt] @ lits ''>''
     @ [Opn, Lazy Dot, Cls] @ lits ''</a>''"

text \<open>\<open><img[^>]*A=["']([^"']*)["'][^>]*B=["']([^"']*)["'][^>]*>\<close>, for the
  attribute names A and B.\<close>

definition rx_img2 :: "string \<Rightarrow> string \<Rightarrow> item list" where
  "rx_img2 a b =
     lits ''<img'' @ [Star not_gt] @ lits (a @ ''='')
     @ [One quote, Opn, Star not_quote, Cls, One quote, Star not_gt] @ lits (b @ ''='')
     @ [One quote, Opn, Star not_quote, Cls, One quote, Star not_gt] @ lits ''>''"

text \<open>\<open><img[^>]*src=["']([^"']*)["'][^>]*>\<close>\<close>

definition rx_img1 :: "item list" where
  "rx_img1 =
     lits ''<img'' @ [Star not_gt] @ lits ''src=''
     @ [One quote, Opn, Star not_quote, Cls, One quote, Star not_gt] @ lits ''>''"

text \<open>\<open><br[^>]*>\<close>, \<open><[^>]+>\<close> and \<open>\n\s*\n\s*\n\<close>.\<close>

definition rx_br :: "item list" where
  "rx_br = lits ''<br'' @ [Star not_gt] @ lits ''>''"

definition rx_tag :: "item list" where
  "rx_tag = lits ''<'' @ [Plus not_gt] @ lits ''>''"

definition rx_blank_lines :: "item list" where
  "rx_blank_lines =
     [One (Lit 0x0A), Star Space, One (Lit 0x0A), Star Space, One (Lit 0x0A)]"

definition convert_headings :: "jsstring \<Rightarrow> jsstring" where
  "convert_headings html =
     (let s = replace_str flags_gi (wrapped ''h1'') (js ''# $1\<newline>\<newline>'') html;
          s = replace_str flags_gi (wrapped ''h2'') (js ''## $1\<newline>\<newline>'') s;
          s = replace_str flags_gi (wrapped ''h3'') (js ''### $1\<newline>\<newline>'') s;
          s = replace_str flags_gi (wrapped ''h4'') (js ''#### $1\<newline>\<newline>'') s;
          s = replace_str flags_gi (wrapped ''h5'') (js ''##### $1\<newline>\<newline>'') s;
          s = replace_str flags_gi (wrapped ''h6'') (js ''###### $1\<newline>\<newline>'') s
      in s)"

definition convert_paragraphs :: "jsstring \<Rightarrow> jsstring" where
  "convert_paragraphs s = replace_str flags_gi (wrapped ''p'') (js ''$1\<newline>\<newline>'') s"

definition convert_emphasis :: "jsstring \<Rightarrow> jsstring" where
  "convert_emphasis s0 =
     (let s = replace_str flags_gi (wrapped_alt [''strong'', ''b'']) (js ''**$2**'') s0;
          s = replace_str flags_gi (wrapped_alt [''em'', ''i'']) (js ''*$2*'') s
      in s)"

definition convert_code :: "jsstring \<Rightarrow> jsstring" where
  "convert_code s0 =
     (let s = replace_str flags_gi (wrapped ''code'') (js ''`$1`'') s0;
          s = replace_str flags_gi (wrapped ''pre'')
                (js ''```\<newline>$1\<newline>```\<newline>\<newline>'') s
      in s)"

definition convert_links :: "jsstring \<Rightarrow> jsstring" where
  "convert_links s = replace_str flags_gi rx_link (js ''[$2]($1)'') s"

definition convert_images :: "jsstring \<Rightarrow> jsstring" where
  "convert_images s0 =
     (let s = replace_str flags_gi (rx_img2 ''src'' ''alt'') (js ''![$2]($1)'') s0;
          s = replace_str flags_gi (rx_img2 ''alt'' ''src'') (js ''![$1]($2)'') s;
          s = replace_str flags_gi rx_img1 (js ''![]($1)'') s
      in s)"

text \<open>
  The two replacer functions of the lists. For \<open>ul\<close> the items are replaced with a string
  template. For \<open>ol\<close> the items are replaced with a function, the closure over \<open>counter\<close>:
  it returns the text \<open>${counter++}. $1\n\<close> and leaves the counter one higher.
\<close>

definition ul_replacer :: "unit \<Rightarrow> match \<Rightarrow> jsstring \<times> unit" where
  "ul_replacer st m =
     (replace_str flags_gi (wrapped ''li'') (js ''- $1\<newline>'') (group1 m) @ js ''\<newline>'', st)"

definition ol_item_replacer :: "nat \<Rightarrow> match \<Rightarrow> jsstring \<times> nat" where
  "ol_item_replacer counter m = (decimal counter @ js ''. $1\<newline>'', counter + 1)"

definition ol_replacer :: "unit \<Rightarrow> match \<Rightarrow> jsstring \<times> unit" where
  "ol_replacer st m =
     (let counter = 1
      in (replace_fn flags_gi (wrapped ''li'') ol_item_replacer counter (group1 m)
          @ js ''\<newline>'', st))"

definition convert_lists :: "jsstring \<Rightarrow> jsstring" where
  "convert_lists s0 =
     (let s = replace_fn flags_gis (wrapped ''ul'') ul_replacer () s0;
          s = replace_fn flags_gis (wrapped ''ol'') ol_replacer () s
      in s)"

definition convert_breaks :: "jsstring \<Rightarrow> jsstring" where
  "convert_breaks s = replace_str flags_gi rx_br (js ''\<newline>'') s"

definition strip_tags :: "jsstring \<Rightarrow> jsstring" where
  "strip_tags s = replace_str flags_g rx_tag [] s"

definition decode_entities :: "jsstring \<Rightarrow> jsstring" where
  "decode_entities s0 =
     (let s = replace_str flags_g (lits ''&amp;'') (js ''&'') s0;
          s = replace_str flags_g (lits ''&lt;'') (js ''<'') s;
          s = replace_str flags_g (lits ''&gt;'') (js ''>'') s;
          s = replace_str flags_g (lits ''&quot;'') [0x22] s;
          s = replace_str flags_g (lits ''&#39;'') [0x27] s
      in s)"

definition collapse_blank_lines :: "jsstring \<Rightarrow> jsstring" where
  "collapse_blank_lines s = replace_str flags_g rx_blank_lines (js ''\<newline>\<newline>'') s"

definition convertHtmlToMarkdown :: "jsstring \<Rightarrow> jsstring" where
  "convertHtmlToMarkdown html =
     trim (collapse_blank_lines (decode_entities (strip_tags (convert_breaks (convert_lists
       (convert_images (convert_links (convert_code (convert_emphasis (convert_paragraphs
         (convert_headings html)))))))))))"

subsection \<open>The data model (types.ts) and the collaborators\<close>

datatype ConvertResult =
    Success jsstring
  | Failure jsstring

text \<open>A thrown value: an instance of \<open>Error\<close> with its message, or anything else.\<close>

datatype jsexn =
    JsError jsstring
  | JsOther

text \<open>\<open>ReadabilityExtractResult\<close> is an article or \<open>null\<close>; a field of the article that is
  \<open>null\<close> or \<open>undefined\<close> is \<open>None\<close>. The fields \<open>title\<close> and \<open>length\<close> of the source
  are \<open>article_title\<close> and \<open>article_length\<close> here.\<close>

record ReadabilityArticle =
  article_title :: "jsstring option"
  content :: "jsstring option"
  textContent :: "jsstring option"
  article_length :: "int option"
  excerpt :: "jsstring option"
  byline :: "jsstring option"
  dir :: "jsstring option"

type_synonym ReadabilityExtractResult = "ReadabilityArticle option"

record Element =
  outerHTML :: jsstring

text \<open>The part of a \<open>Document\<close> that the extension reads. \<open>body\<close> is \<open>null\<close> for a
  document without a body; \<open>querySelectorAll\<close> gives the matching elements in document
  order, or throws.\<close>

record Document =
  body :: "Element option"
  querySelectorAll :: "jsstring \<Rightarrow> jsexn + Element list"
  title :: jsstring

record Location =
  hostname :: jsstring
  href :: jsstring

text \<open>
  What the code reaches through globals and imports: \<open>globalThis.location\<close> (\<open>None\<close> when
  it is undefined), the library call \<open>new Readability(new DOMParser().parseFromString(html,
  "text/html"), {charThreshold}).parse()\<close>, the message of the \<open>TypeError\<close> that the engine
  throws on reading a property of \<open>null\<close>, and \<open>copyToClipboard\<close> of clipboard.ts (a
  rejected promise is a thrown value).
\<close>

record env =
  location :: "Location option"
  readability :: "jsstring \<Rightarrow> nat \<Rightarrow> jsexn + ReadabilityExtractResult"
  null_property_message :: jsstring
  copyToClipboard :: "jsstring \<Rightarrow> jsexn + bool"

subsection \<open>The functions of readability.ts\<close>

text \<open>\<open>globalThis.location?.hostname.includes(CLAUDE_AI_DOMAIN) ?? false\<close>: without a
  location the test is false; with one, \<open>hostname\<close> is a string by the type of \<open>Location\<close>.\<close>

definition isClaudeAiSite :: "env \<Rightarrow> bool" where
  "isClaudeAiSite e =
     (case location e of
        None \<Rightarrow> False
      | Some loc \<Rightarrow> includes_str (hostname loc) CLAUDE_AI_DOMAIN)"

definition extractClaudeAiElements :: "Document \<Rightarrow> jsexn + Element list" where
  "extractClaudeAiElements document =
     querySelectorAll document (js ''['' @ CLAUDE_AI_ATTRIBUTE @ js '']'')"

text \<open>Every exception of the library is caught and becomes \<open>null\<close>.\<close>

definition extractPageContent :: "env \<Rightarrow> jsstring \<Rightarrow> ReadabilityExtractResult" where
  "extractPageContent e html =
     (case readability e html MINIMUM_CHAR_THRESHOLD of
        Inl err \<Rightarrow> None
      | Inr result \<Rightarrow> result)"

definition convertToMarkdown :: "ReadabilityExtractResult \<Rightarrow> jsexn + jsstring" where
  "convertToMarkdown extractedContent =
     (case extractedContent of
        None \<Rightarrow> Inl (JsError EXTRACTION_ERROR)
      | Some article \<Rightarrow>
          (case content article of
             None \<Rightarrow> Inl (JsError CONTENT_PROPERTY_ERROR)
           | Some c \<Rightarrow>
               if c = [] \<or> trim c = [] then Inl (JsError CONTENT_PROPERTY_ERROR)
               else Inr (convertHtmlToMarkdown c)))"

definition convertElementToMarkdown :: "env \<Rightarrow> Element \<Rightarrow> jsstring option" where
  "convertElementToMarkdown e element =
     (case extractPageContent e (outerHTML element) of
        None \<Rightarrow> None
      | Some article \<Rightarrow>
          (case convertToMarkdown (Some article) of
             Inl err \<Rightarrow> None
           | Inr markdown \<Rightarrow> Some markdown))"

text \<open>The \<open>for\<close> loop of \<open>convertElementsToMarkdownSections\<close>, with the array that it
  pushes to.\<close>

fun sections_loop :: "env \<Rightarrow> Element list \<Rightarrow> jsstring list \<Rightarrow> jsstring list" where
  "sections_loop e [] markdownSections = markdownSections"
| "sections_loop e (element # elements) markdownSections =
     (case convertElementToMarkdown e element of
        None \<Rightarrow> sections_loop e elements markdownSections
      | Some markdown \<Rightarrow>
          if markdown \<noteq> [] \<and> trim markdown \<noteq> []
          then sections_loop e elements (markdownSections @ [trim markdown])
          else sections_loop e elements markdownSections)"

definition convertElementsToMarkdownSections :: "env \<Rightarrow> Element list \<Rightarrow> jsstring list" where
  "convertElementsToMarkdownSections e elements = sections_loop e elements []"

definition combineMarkdownSections :: "jsstring list \<Rightarrow> jsstring" where
  "combineMarkdownSections sections = join SECTION_SEPARATOR sections"

text \<open>\<open>error instanceof Error ? error.message : DEFAULT_ERROR_MESSAGE\<close>\<close>

definition errorMessage :: "jsexn \<Rightarrow> jsstring" where
  "errorMessage err = (case err of JsError msg \<Rightarrow> msg | JsOther \<Rightarrow> DEFAULT_ERROR_MESSAGE)"

text \<open>The \<open>try\<close> block of \<open>processClaudeAiPage\<close>, and the function with its \<open>catch\<close>.
  \<open>Inl\<close> is an exception that leaves the block or the function.\<close>

definition processClaudeAiPage_try :: "env \<Rightarrow> Document \<Rightarrow> jsexn + ConvertResult" where
  "processClaudeAiPage_try e document =
     (case extractClaudeAiElements document of
        Inl err \<Rightarrow> Inl err
      | Inr elements \<Rightarrow>
          if length elements = 0 then Inr (Failure CLAUDE_AI_NO_ELEMENTS_ERROR)
          else
            (let markdownSections = convertElementsToMarkdownSections e elements
             in if length markdownSections = 0 then Inr (Failure EMPTY_MARKDOWN_ERROR)
                else Inr (Success (combineMarkdownSections markdownSections))))"

definition processClaudeAiPage :: "env \<Rightarrow> Document \<Rightarrow> jsexn + ConvertResult" where
  "processClaudeAiPage e document =
     (case processClaudeAiPage_try e document of
        Inl err \<Rightarrow> Inr (Failure (errorMessage err))
      | Inr result \<Rightarrow> Inr result)"

text \<open>The \<open>try\<close> block of \<open>convertPageToMarkdown\<close>. Reading \<open>outerHTML\<close> of a \<open>null\<close>
  body throws a \<open>TypeError\<close>.\<close>

definition convertPageToMarkdown_try :: "env \<Rightarrow> Document \<Rightarrow> jsexn + ConvertResult" where
  "convertPageToMarkdown_try e document =
     (case body document of
        None \<Rightarrow> Inl (JsError (null_property_message e))
      | Some b \<Rightarrow>
          (let html = outerHTML b;
               extracted = extractPageContent e html
           in case extracted of
                None \<Rightarrow> Inr (Failure EXTRACTION_ERROR)
              | Some article \<Rightarrow>
                  (case convertToMarkdown extracted of
                     Inl err \<Rightarrow> Inl err
                   | Inr markdown \<Rightarrow>
                       if trim markdown = [] then Inr (Failure EMPTY_MARKDOWN_ERROR)
                       else Inr (Success markdown))))"

text \<open>The part of \<open>convertPageToMarkdown\<close> after the test of the site: the \<open>try\<close> block
  with its \<open>catch\<close>.\<close>

definition convertPageToMarkdown_generic :: "env \<Rightarrow> Document \<Rightarrow> jsexn + ConvertResult" where
  "convertPageToMarkdown_generic e document =
     (case convertPageToMarkdown_try e document of
        Inl err \<Rightarrow> Inr (Failure (errorMessage err))
      | Inr result \<Rightarrow> Inr result)"

definition convertPageToMarkdown :: "env \<Rightarrow> Document \<Rightarrow> jsexn + ConvertResult" where
  "convertPageToMarkdown e document =
     (if isClaudeAiSite e then processClaudeAiPage e document
      else convertPageToMarkdown_generic e document)"

section \<open>The content script (content-script.ts)\<close>

definition ERROR_CONVERT_PREFIX :: jsstring where
  "ERROR_CONVERT_PREFIX = [0x5909, 0x63DB, 0x30A8, 0x30E9, 0x30FC] @ js '':''"

definition ERROR_CLIPBOARD_COPY :: jsstring where
  "ERROR_CLIPBOARD_COPY =
     [0x30AF, 0x30EA, 0x30C3, 0x30D7, 0x30DC, 0x30FC, 0x30C9, 0x3078, 0x306E, 0x30B3, 0x30D4,
      0x30FC, 0x306B, 0x5931, 0x6557, 0x3057, 0x307E, 0x3057, 0x305F]"

definition ERROR_UNEXPECTED :: jsstring where
  "ERROR_UNEXPECTED =
     [0x4E88, 0x671F, 0x3057, 0x306A, 0x3044, 0x30A8, 0x30E9, 0x30FC, 0x304C, 0x767A, 0x751F,
      0x3057, 0x307E, 0x3057, 0x305F]"

definition ERROR_PREFIX :: jsstring where
  "ERROR_PREFIX = [0x30A8, 0x30E9, 0x30FC] @ js '':''"

definition SUCCESS_COPY_MESSAGE :: jsstring where
  "SUCCESS_COPY_MESSAGE =
     [0x30DE, 0x30FC, 0x30AF, 0x30C0, 0x30A6, 0x30F3, 0x3092, 0x30AF, 0x30EA, 0x30C3, 0x30D7,
      0x30DC, 0x30FC, 0x30C9, 0x306B, 0x30B3, 0x30D4, 0x30FC, 0x3057, 0x307E, 0x3057, 0x305F]"

definition MARKDOWN_SEPARATOR :: jsstring where
  "MARKDOWN_SEPARATOR = js ''\<newline>\<newline>---\<newline>\<newline>''"

text \<open>The placeholder of an empty title, the two characters of the source's literal.\<close>

definition UNTITLED :: jsstring where
  "UNTITLED = [0x7121, 0x984C]"

text \<open>\<open>a || b\<close> on strings: the empty string is falsy.\<close>

definition or_else :: "jsstring \<Rightarrow> jsstring \<Rightarrow> jsstring" where
  "or_else a b = (if a = [] then b else a)"

definition createMarkdownHeader :: "env \<Rightarrow> Document \<Rightarrow> jsstring" where
  "createMarkdownHeader e document =
     (let title = or_else (title document) UNTITLED;
          url = (case location e of None \<Rightarrow> [] | Some loc \<Rightarrow> or_else (href loc) [])
      in js ''# '' @ title @ js ''\<newline>\<newline>URL: '' @ url)"

text \<open>What \<open>handleConvertToMarkdown\<close> does to the outside, in order: the text it hands to
  \<open>copyToClipboard\<close> and the toasts it shows.\<close>

datatype effect =
    CopyToClipboard jsstring
  | ShowErrorToast jsstring
  | ShowSuccessToast jsstring

definition unexpectedMessage :: "jsexn \<Rightarrow> jsstring" where
  "unexpectedMessage err = (case err of JsError msg \<Rightarrow> msg | JsOther \<Rightarrow> ERROR_UNEXPECTED)"

definition handleConvertToMarkdown :: "env \<Rightarrow> Document \<Rightarrow> effect list" where
  "handleConvertToMarkdown e document =
     (case convertPageToMarkdown e document of
        Inl err \<Rightarrow> [ShowErrorToast (ERROR_PREFIX @ js '' '' @ unexpectedMessage err)]
      | Inr (Failure error) \<Rightarrow> [ShowErrorToast (ERROR_CONVERT_PREFIX @ js '' '' @ error)]
      | Inr (Success markdown) \<Rightarrow>
          (let header = createMarkdownHeader e document;
               finalMarkdown = header @ MARKDOWN_SEPARATOR @ markdown
           in case copyToClipboard e finalMarkdown of
                Inl err \<Rightarrow>
                  [CopyToClipboard finalMarkdown,
                   ShowErrorToast (ERROR_PREFIX @ js '' '' @ unexpectedMessage err)]
              | Inr copySuccess \<Rightarrow>
                  if \<not> copySuccess
                  then [CopyToClipboard finalMarkdown, ShowErrorToast ERROR_CLIPBOARD_COPY]
                  else [CopyToClipboard finalMarkdown, ShowSuccessToast SUCCESS_COPY_MESSAGE]))"

section \<open>The words of the specification\<close>

text \<open>
  The specification's reading of the fragment path: an element survives when its conversion
  gives a text that is not blank, and its fragment is that text trimmed.
\<close>

definition element_survives :: "env \<Rightarrow> Element \<Rightarrow> bool" where
  "element_survives e element =
     (case convertElementToMarkdown e element of
        None \<Rightarrow> False
      | Some markdown \<Rightarrow> trim markdown \<noteq> [])"

definition element_fragment :: "env \<Rightarrow> Element \<Rightarrow> jsstring" where
  "element_fragment e element =
     (case convertElementToMarkdown e element of
        None \<Rightarrow> []
      | Some markdown \<Rightarrow> trim markdown)"

text \<open>
  A tag, as the converter's own pattern \<open><[^>]+>\<close> reads it: \<open><\<close>, a character that is
  not \<open>>\<close>, and a \<open>>\<close> somewhere after it.
\<close>

fun tag_at :: "jsstring \<Rightarrow> bool" where
  "tag_at (c # d # s) = (c = 0x3C \<and> d \<noteq> 0x3E \<and> 0x3E \<in> set s)"
| "tag_at _ = False"

fun has_tag :: "jsstring \<Rightarrow> bool" where
  "has_tag [] = False"
| "has_tag (c # s) = (tag_at (c # s) \<or> has_tag s)"

text \<open>The five entities that the converter decodes.\<close>

definition entities :: "jsstring list" where
  "entities = [js ''&amp;'', js ''&lt;'', js ''&gt;'', js ''&quot;'', js ''&#39;'']"

text \<open>A run of white space that holds three line feeds, what \<open>\n\s*\n\s*\n\<close> matches.\<close>

definition has_blank_lines :: "jsstring \<Rightarrow> bool" where
  "has_blank_lines s \<longleftrightarrow>
     (\<exists>a w1 w2 b. s = a @ [0x0A] @ w1 @ [0x0A] @ w2 @ [0x0A] @ b
        \<and> list_all is_space w1 \<and> list_all is_space w2)"

section \<open>Test fixtures\<close>

text \<open>
  An extraction that returns the markup it is given as the article's content, but throws on
  the markup \<open>throw\<close>, returns \<open>null\<close> on \<open>null\<close> and an article without content on
  \<open>bare\<close>; an environment on a host; a document with a body, marked elements and a title.
\<close>

definition test_article :: "jsstring option \<Rightarrow> ReadabilityArticle" where
  "test_article c =
     \<lparr>article_title = None, content = c, textContent = None, article_length = None,
      excerpt = None, byline = None, dir = None\<rparr>"

definition test_readability :: "jsstring \<Rightarrow> nat \<Rightarrow> jsexn + ReadabilityExtractResult" where
  "test_readability html threshold =
     (if html = js ''throw'' then Inl (JsError (js ''boom''))
      else if html = js ''null'' then Inr None
      else if html = js ''bare'' then Inr (Some (test_article None))
      else Inr (Some (test_article (Some html))))"

definition test_env :: "jsstring option \<Rightarrow> env" where
  "test_env host =
     \<lparr>location = map_option (\<lambda>h. \<lparr>hostname = h, href = js ''https://'' @ h @ js ''/''\<rparr>) host,
      readability = test_readability,
      null_property_message = js ''Cannot read properties of null'',
      copyToClipboard = (\<lambda>text. Inr True)\<rparr>"

definition test_document :: "jsstring option \<Rightarrow> jsstring list \<Rightarrow> jsstring \<Rightarrow> Document" where
  "test_document b marked t =
     \<lparr>body = map_option (\<lambda>h. \<lparr>outerHTML = h\<rparr>) b,
      querySelectorAll =
        (\<lambda>selector. if selector = js ''[data-test-render-count]''
                    then Inr (map (\<lambda>h. \<lparr>outerHTML = h\<rparr>) marked) else Inr []),
      title = t\<rparr>"

section \<open>Patterns of tags\<close>

text \<open>Patterns that open like a tag: \<open><\<close>, then something that cannot begin with \<open>>\<close>, and
  a literal \<open>>\<close> later.\<close>

fun nongt_head :: "flags \<Rightarrow> item list \<Rightarrow> bool" where
  "nongt_head f (One a # r) = (\<not> atom_ok f a 0x3E)"
| "nongt_head f (Plus a # r) = (\<not> atom_ok f a 0x3E)"
| "nongt_head f (Opn # r) = nongt_head f r"
| "nongt_head f (Cls # r) = nongt_head f r"
| "nongt_head f (Alt ws # r) = list_all (\<lambda>w. w \<noteq> [] \<and> \<not> atom_ok f (Lit (hd w)) 0x3E) ws"
| "nongt_head f _ = False"

fun tag_pattern :: "flags \<Rightarrow> item list \<Rightarrow> bool" where
  "tag_pattern f (One (Lit c) # r) = (c = 0x3C \<and> nongt_head f r \<and> One (Lit 0x3E) \<in> set r)"
| "tag_pattern f _ = False"

section \<open>Properties of the string operations\<close>

lemma dropWhile_all_iff: "(\<forall>c\<in>set (dropWhile P s). P c) \<longleftrightarrow> dropWhile P s = []"
proof
  assume all: "\<forall>c\<in>set (dropWhile P s). P c"
  show "dropWhile P s = []"
  proof (rule ccontr)
    assume ne: "dropWhile P s \<noteq> []"
    then have "\<not> P (hd (dropWhile P s))" by (rule hd_dropWhile)
    moreover from ne have "hd (dropWhile P s) \<in> set (dropWhile P s)" by simp
    ultimately show False using all by blast
  qed
next
  assume e: "dropWhile P s = []"
  show "\<forall>c\<in>set (dropWhile P s). P c" unfolding e by simp
qed

lemma trim_nonempty_iff: "trim s \<noteq> [] \<longleftrightarrow> (\<exists>c\<in>set s. \<not> is_space c)"
proof -
  have "trim s = [] \<longleftrightarrow> (\<forall>c\<in>set (dropWhile is_space s). is_space c)"
    unfolding trim_def by (simp add: dropWhile_eq_Nil_conv)
  also have "\<dots> \<longleftrightarrow> dropWhile is_space s = []"
    by (rule dropWhile_all_iff)
  also have "\<dots> \<longleftrightarrow> (\<forall>c\<in>set s. is_space c)"
    by (simp add: dropWhile_eq_Nil_conv)
  finally show ?thesis by blast
qed

lemma starts_with_iff: "starts_with s p \<longleftrightarrow> (\<exists>b. s = p @ b)"
  by (induction s p rule: starts_with.induct) auto

lemma includes_str_iff: "includes_str s sub \<longleftrightarrow> (\<exists>a b. s = a @ sub @ b)"
proof (induction s)
  case Nil
  then show ?case by (auto simp: starts_with_iff)
next
  case (Cons c s)
  show ?case
  proof
    assume "includes_str (c # s) sub"
    then consider "starts_with (c # s) sub" | "includes_str s sub" by auto
    then show "\<exists>a b. c # s = a @ sub @ b"
    proof cases
      case 1
      then obtain b where "c # s = sub @ b" by (auto simp: starts_with_iff)
      then have "c # s = [] @ sub @ b" by simp
      then show ?thesis by blast
    next
      case 2
      then obtain a b where "s = a @ sub @ b" using Cons.IH by blast
      then have "c # s = (c # a) @ sub @ b" by simp
      then show ?thesis by blast
    qed
  next
    assume "\<exists>a b. c # s = a @ sub @ b"
    then obtain a b where ab: "c # s = a @ sub @ b" by blast
    show "includes_str (c # s) sub"
    proof (cases a)
      case Nil
      with ab have "starts_with (c # s) sub" by (simp add: starts_with_iff)
      then show ?thesis by simp
    next
      case (Cons x a')
      with ab have "s = a' @ sub @ b" by simp
      then have "includes_str s sub" using Cons.IH by blast
      then show ?thesis by simp
    qed
  qed
qed

lemma set_dropWhile_keep: "c \<in> set s \<Longrightarrow> \<not> P c \<Longrightarrow> c \<in> set (dropWhile P s)"
  by (induction s) auto

lemma trim_keeps: "c \<in> set s \<Longrightarrow> \<not> is_space c \<Longrightarrow> c \<in> set (trim s)"
  unfolding trim_def by (simp add: set_dropWhile_keep)

lemma trim_trim_nonempty: "trim s \<noteq> [] \<Longrightarrow> \<exists>c\<in>set (trim s). \<not> is_space c"
  using trim_keeps trim_nonempty_iff by blast

lemma join_head_subset: "set x \<subseteq> set (join sep (x # xs))"
  by (cases xs) auto

section \<open>The fragment path and the generic path\<close>

lemma sections_loop_eq:
  "sections_loop e elements acc =
     acc @ map (element_fragment e) (filter (element_survives e) elements)"
proof (induction elements arbitrary: acc)
  case Nil
  then show ?case by simp
next
  case (Cons el els)
  show ?case
  proof (cases "convertElementToMarkdown e el")
    case None
    then show ?thesis by (simp add: Cons.IH element_survives_def)
  next
    case (Some md)
    then show ?thesis
      using trim_nonempty_iff [of md]
      by (auto simp: Cons.IH element_survives_def element_fragment_def)
  qed
qed

lemma sections_eq:
  "convertElementsToMarkdownSections e elements =
     map (element_fragment e) (filter (element_survives e) elements)"
  by (simp add: convertElementsToMarkdownSections_def sections_loop_eq)

lemma fragment_not_blank:
  "element_survives e el \<Longrightarrow> \<exists>c\<in>set (element_fragment e el). \<not> is_space c"
  using trim_trim_nonempty
  by (auto simp: element_survives_def element_fragment_def split: option.splits)

lemma claude_result:
  assumes "extractClaudeAiElements document = Inr elements"
  shows "processClaudeAiPage e document =
     (if elements = [] then Inr (Failure CLAUDE_AI_NO_ELEMENTS_ERROR)
      else if filter (element_survives e) elements = [] then Inr (Failure EMPTY_MARKDOWN_ERROR)
      else Inr (Success (join SECTION_SEPARATOR
             (map (element_fragment e) (filter (element_survives e) elements)))))"
  using assms
  by (simp add: processClaudeAiPage_def processClaudeAiPage_try_def sections_eq
        combineMarkdownSections_def Let_def)

lemma claude_throw:
  assumes "extractClaudeAiElements document = Inl err"
  shows "processClaudeAiPage e document = Inr (Failure (errorMessage err))"
  using assms by (simp add: processClaudeAiPage_def processClaudeAiPage_try_def)

lemma claude_success_not_blank:
  assumes "processClaudeAiPage e document = Inr (Success markdown)"
  shows "\<exists>c\<in>set markdown. \<not> is_space c"
proof (cases "extractClaudeAiElements document")
  case (Inl err)
  with assms show ?thesis by (simp add: claude_throw)
next
  case (Inr elements)
  let ?ok = "filter (element_survives e) elements"
  from assms Inr have ne: "?ok \<noteq> []"
    and md: "markdown = join SECTION_SEPARATOR (map (element_fragment e) ?ok)"
    by (auto simp: claude_result split: if_splits)
  from ne obtain el rest where ok: "?ok = el # rest" by (cases ?ok) auto
  then have "el \<in> set ?ok" by simp
  then have "element_survives e el" by simp
  then obtain c where c: "c \<in> set (element_fragment e el)" "\<not> is_space c"
    using fragment_not_blank by blast
  have "set (element_fragment e el) \<subseteq> set markdown"
    unfolding md ok using join_head_subset by simp
  with c show ?thesis by blast
qed

lemma generic_success_not_blank:
  assumes "convertPageToMarkdown_generic e document = Inr (Success markdown)"
  shows "trim markdown \<noteq> []"
  using assms
  by (auto simp: convertPageToMarkdown_generic_def convertPageToMarkdown_try_def Let_def
           split: option.splits sum.splits if_splits)


section \<open>Properties of the matcher and of the replacement\<close>

lemma canon_eq_lt: "canon x = 0x3C \<Longrightarrow> x = 0x3C"
proof -
  assume a: "canon x = 0x3C"
  show ?thesis
  proof (cases "0x61 \<le> x \<and> x \<le> 0x7A")
    case True
    with a have "x - 0x20 = 0x3C" by (simp add: canon_def)
    then have "x = 0x3C + 0x20" by (metis diff_add_cancel)
    then have "x = 0x5C" by simp
    with True show ?thesis by simp
  next
    case False
    with a show ?thesis by (simp add: canon_def)
  qed
qed

lemma canon_eq_gt: "canon x = 0x3E \<Longrightarrow> x = 0x3E"
proof -
  assume a: "canon x = 0x3E"
  show ?thesis
  proof (cases "0x61 \<le> x \<and> x \<le> 0x7A")
    case True
    with a have "x - 0x20 = 0x3E" by (simp add: canon_def)
    then have "x = 0x3E + 0x20" by (metis diff_add_cancel)
    then have "x = 0x5E" by simp
    with True show ?thesis by simp
  next
    case False
    with a show ?thesis by (simp add: canon_def)
  qed
qed

lemma canon_lt: "canon 0x3C = 0x3C"
  by (simp add: canon_def)

lemma canon_gt: "canon 0x3E = 0x3E"
  by (simp add: canon_def)

lemma lit_lt_exact: "atom_ok f (Lit 0x3C) x \<Longrightarrow> x = 0x3C"
  by (cases "ignoreCase f") (simp_all add: canon_lt canon_eq_lt)

lemma lit_gt_exact: "atom_ok f (Lit 0x3E) x \<Longrightarrow> x = 0x3E"
  by (cases "ignoreCase f") (simp_all add: canon_gt canon_eq_gt)

lemma rmatch_literal_in_input:
  "rmatch f r s m = Some res \<Longrightarrow> One (Lit k) \<in> set r \<Longrightarrow> (\<And>x. atom_ok f (Lit k) x \<Longrightarrow> x = k)
     \<Longrightarrow> k \<in> set s"
  by (induction f r s m rule: rmatch.induct)
     (auto simp del: atom_ok.simps split: if_splits option.splits dest: in_set_dropD)


lemma atom_ok_lit_self: "atom_ok f (Lit k) k"
  by simp

lemma nongt_not_lit: "\<not> atom_ok f a 0x3E \<Longrightarrow> a \<noteq> Lit 0x3E"
  using atom_ok_lit_self by blast

lemma lit_prefix_head:
  "lit_prefix f w s \<Longrightarrow> w \<noteq> [] \<Longrightarrow> \<exists>c t. s = c # t \<and> atom_ok f (Lit (hd w)) c"
  by (cases w; cases s) (simp_all del: atom_ok.simps)

lemma rmatch_nongt_head:
  "rmatch f r s m = Some res \<Longrightarrow> nongt_head f r \<Longrightarrow> One (Lit 0x3E) \<in> set r
     \<Longrightarrow> \<exists>d t. s = d # t \<and> d \<noteq> 0x3E \<and> 0x3E \<in> set t"
proof (induction f r s m rule: rmatch.induct)
  case (3 f a r c s m)
  from "3.prems" have ok: "atom_ok f a c" and rest: "rmatch f r s (eat [c] m) = Some res"
    by (auto split: if_splits)
  from "3.prems" ok have "c \<noteq> 0x3E" by auto
  moreover from "3.prems" have "a \<noteq> Lit 0x3E" by (simp del: atom_ok.simps add: nongt_not_lit)
  with "3.prems" have "One (Lit 0x3E) \<in> set r" by simp
  then have "0x3E \<in> set s" using rest lit_gt_exact rmatch_literal_in_input by blast
  ultimately show ?case by simp
next
  case (5 f a r c s m)
  from "5.prems" have ok: "atom_ok f a c" and rest: "rmatch f (Star a # r) s (eat [c] m) = Some res"
    by (auto split: if_splits)
  from "5.prems" ok have "c \<noteq> 0x3E" by auto
  moreover from "5.prems" have "One (Lit 0x3E) \<in> set (Star a # r)" by simp
  then have "0x3E \<in> set s" using rest lit_gt_exact rmatch_literal_in_input by blast
  ultimately show ?case by simp
next
  case (13 f w ws r s m)
  from "13.prems" have lit: "One (Lit 0x3E) \<in> set r" by simp
  from "13.prems" have hw: "w \<noteq> []" "\<not> atom_ok f (Lit (hd w)) 0x3E"
    and tl: "nongt_head f (Alt ws # r)" by simp_all
  show ?case
  proof (cases "lit_prefix f w s \<and> rmatch f r (drop (length w) s) (eat (take (length w) s) m) \<noteq> None")
    case True
    then obtain c t where s: "s = c # t" and c: "atom_ok f (Lit (hd w)) c"
      using lit_prefix_head hw by blast
    from c hw have "c \<noteq> 0x3E" by auto
    moreover from True "13.prems" have "rmatch f r (drop (length w) s) (eat (take (length w) s) m) = Some res"
      by auto
    then have "0x3E \<in> set (drop (length w) s)"
      using lit lit_gt_exact rmatch_literal_in_input by blast
    with s hw have "0x3E \<in> set t" by (cases w) (auto dest: in_set_dropD)
    ultimately show ?thesis using s by simp
  next
    case False
    with "13.prems" have "rmatch f (Alt ws # r) s m = Some res"
      by (auto split: if_splits option.splits)
    with False 13 tl lit show ?thesis by (auto split: if_splits)
  qed
qed (auto simp del: atom_ok.simps)


lemma tag_pattern_match:
  assumes "tag_pattern f rx" and "rmatch f rx s m = Some res"
  shows "tag_at s"
proof -
  from assms(1) obtain r where rx: "rx = One (Lit 0x3C) # r"
    and hd: "nongt_head f r" and lit: "One (Lit 0x3E) \<in> set r"
    by (cases "(f, rx)" rule: tag_pattern.cases) auto
  from assms(2) rx obtain c t where s: "s = c # t" and c: "atom_ok f (Lit 0x3C) c"
    and rest: "rmatch f r t (eat [c] m) = Some res"
    by (cases s) (auto simp del: atom_ok.simps split: if_splits)
  from c have "c = 0x3C" by (rule lit_lt_exact)
  moreover from rmatch_nongt_head [OF rest hd lit]
  obtain d u where "t = d # u" "d \<noteq> 0x3E" "0x3E \<in> set u" by blast
  ultimately show ?thesis using s by simp
qed

lemma has_tag_drop: "has_tag (drop n s) \<Longrightarrow> has_tag s"
proof (induction s arbitrary: n)
  case Nil
  then show ?case by simp
next
  case (Cons c s)
  then show ?case by (cases n) auto
qed

lemma tag_at_has_tag: "tag_at s \<Longrightarrow> has_tag s"
  by (cases s) auto

lemma no_tag_no_match:
  assumes "\<not> has_tag s" and "tag_pattern f rx"
  shows "rmatch f rx (drop n s) start = None"
proof (rule ccontr)
  assume "rmatch f rx (drop n s) start \<noteq> None"
  then obtain res where "rmatch f rx (drop n s) start = Some res" by auto
  then have "tag_at (drop n s)" using assms(2) tag_pattern_match by blast
  then have "has_tag s" using tag_at_has_tag has_tag_drop by blast
  with assms(1) show False by contradiction
qed

lemma replace_loop_id:
  "(\<And>n. rmatch f rx (drop n s) start = None) \<Longrightarrow> replace_loop f rx repl st s = s"
proof (induction s)
  case Nil
  from Nil [of 0] show ?case by simp
next
  case (Cons c s)
  from Cons.prems [of 0] have here: "rmatch f rx (c # s) start = None" by simp
  have "rmatch f rx (drop n s) start = None" for n
    using Cons.prems [of "Suc n"] by simp
  then have "replace_loop f rx repl st s = s" by (rule Cons.IH)
  with here show ?case by simp
qed

lemma replace_str_no_tag:
  "\<not> has_tag s \<Longrightarrow> tag_pattern f rx \<Longrightarrow> replace_str f rx template s = s"
  unfolding replace_str_def by (rule replace_loop_id) (rule no_tag_no_match)

lemma replace_fn_no_tag:
  "\<not> has_tag s \<Longrightarrow> tag_pattern f rx \<Longrightarrow> replace_fn f rx fn st s = s"
  unfolding replace_fn_def by (rule replace_loop_id) (rule no_tag_no_match)

lemma rmatch_literal_word:
  "rmatch f (map (\<lambda>c. One (Lit c)) w) s m = Some res \<Longrightarrow> \<not> ignoreCase f \<Longrightarrow> starts_with s w"
proof (induction w arbitrary: s m)
  case Nil
  then show ?case by simp
next
  case (Cons a w)
  then show ?case by (cases s) (auto split: if_splits)
qed

lemma starts_with_drop_includes: "starts_with (drop n s) w \<Longrightarrow> includes_str s w"
proof -
  assume "starts_with (drop n s) w"
  then obtain b where "drop n s = w @ b" by (auto simp: starts_with_iff)
  then have "s = take n s @ w @ b" by (metis append_take_drop_id)
  then show ?thesis unfolding includes_str_iff by blast
qed

lemma replace_str_no_entity:
  assumes "\<not> includes_str s (js w)"
  shows "replace_str flags_g (lits w) template s = s"
  unfolding replace_str_def
proof (rule replace_loop_id)
  fix n
  show "rmatch flags_g (lits w) (drop n s) start = None"
  proof (rule ccontr)
    assume "rmatch flags_g (lits w) (drop n s) start \<noteq> None"
    then obtain res where "rmatch flags_g (lits w) (drop n s) start = Some res" by auto
    then have "starts_with (drop n s) (js w)"
      unfolding lits_def by (rule rmatch_literal_word) (simp add: flags_g_def)
    then show False using assms starts_with_drop_includes by blast
  qed
qed

lemma rmatch_star_split:
  "rmatch f (Star a # r) s m = Some res \<Longrightarrow>
     \<exists>w t m'. s = w @ t \<and> list_all (atom_ok f a) w \<and> rmatch f r t m' = Some res"
proof (induction s arbitrary: m)
  case Nil
  then have "rmatch f r [] m = Some res" by simp
  then show ?case by fastforce
next
  case (Cons c s)
  show ?case
  proof (cases "atom_ok f a c \<and> rmatch f (Star a # r) s (eat [c] m) \<noteq> None")
    case True
    with Cons.prems have "rmatch f (Star a # r) s (eat [c] m) = Some res" by auto
    from Cons.IH [OF this] obtain w t m' where
      "s = w @ t" "list_all (atom_ok f a) w" "rmatch f r t m' = Some res" by blast
    with True have "c # s = (c # w) @ t \<and> list_all (atom_ok f a) (c # w) \<and> rmatch f r t m' = Some res"
      by simp
    then show ?thesis by blast
  next
    case False
    with Cons.prems have "rmatch f r (c # s) m = Some res"
      by (auto simp del: atom_ok.simps split: if_splits option.splits)
    then have "c # s = [] @ (c # s) \<and> list_all (atom_ok f a) [] \<and> rmatch f r (c # s) m = Some res"
      by simp
    then show ?thesis by blast
  qed
qed

lemma rmatch_one_lit:
  "rmatch f (One (Lit k) # r) s m = Some res \<Longrightarrow> \<not> ignoreCase f \<Longrightarrow>
     \<exists>t. s = k # t \<and> rmatch f r t (eat [k] m) = Some res"
  by (cases s) (auto split: if_splits)

lemma blank_lines_match:
  assumes "rmatch flags_g rx_blank_lines t start = Some res"
  shows "\<exists>w1 w2 b. t = [0x0A] @ w1 @ [0x0A] @ w2 @ [0x0A] @ b
           \<and> list_all is_space w1 \<and> list_all is_space w2"
proof -
  have nc: "\<not> ignoreCase flags_g" by (simp add: flags_g_def)
  from assms obtain t1 where t: "t = 0x0A # t1"
    and m1: "rmatch flags_g [Star Space, One (Lit 0x0A), Star Space, One (Lit 0x0A)] t1 (eat [0x0A] start) = Some res"
    unfolding rx_blank_lines_def using rmatch_one_lit [OF _ nc] by blast
  from rmatch_star_split [OF m1] obtain w1 t2 m2 where t1: "t1 = w1 @ t2"
    and w1: "list_all (atom_ok flags_g Space) w1"
    and m2: "rmatch flags_g [One (Lit 0x0A), Star Space, One (Lit 0x0A)] t2 m2 = Some res"
    by blast
  from rmatch_one_lit [OF m2 nc] obtain t3 where t2: "t2 = 0x0A # t3"
    and m3: "rmatch flags_g [Star Space, One (Lit 0x0A)] t3 (eat [0x0A] m2) = Some res"
    by blast
  from rmatch_star_split [OF m3] obtain w2 t4 m4 where t3: "t3 = w2 @ t4"
    and w2: "list_all (atom_ok flags_g Space) w2"
    and m4: "rmatch flags_g [One (Lit 0x0A)] t4 m4 = Some res"
    by blast
  from rmatch_one_lit [OF m4 nc] obtain b where t4: "t4 = 0x0A # b" by blast
  have "t = [0x0A] @ w1 @ [0x0A] @ w2 @ [0x0A] @ b" using t t1 t2 t3 t4 by simp
  moreover have "list_all is_space w1" using w1 by (simp add: list_all_iff)
  moreover have "list_all is_space w2" using w2 by (simp add: list_all_iff)
  ultimately show ?thesis by blast
qed

lemma replace_str_no_blank_lines:
  assumes "\<not> has_blank_lines s"
  shows "replace_str flags_g rx_blank_lines template s = s"
  unfolding replace_str_def
proof (rule replace_loop_id)
  fix n
  show "rmatch flags_g rx_blank_lines (drop n s) start = None"
  proof (rule ccontr)
    assume "rmatch flags_g rx_blank_lines (drop n s) start \<noteq> None"
    then obtain res where "rmatch flags_g rx_blank_lines (drop n s) start = Some res" by auto
    from blank_lines_match [OF this] obtain w1 w2 b where
      d: "drop n s = [0x0A] @ w1 @ [0x0A] @ w2 @ [0x0A] @ b"
      and w: "list_all is_space w1" "list_all is_space w2" by blast
    have "s = take n s @ drop n s" by simp
    with d have "s = take n s @ [0x0A] @ w1 @ [0x0A] @ w2 @ [0x0A] @ b" by simp
    with w have "has_blank_lines s" unfolding has_blank_lines_def by blast
    with assms show False by contradiction
  qed
qed

lemma tag_patterns:
  "tag_pattern flags_gi (wrapped ''h1'')" "tag_pattern flags_gi (wrapped ''h2'')"
  "tag_pattern flags_gi (wrapped ''h3'')" "tag_pattern flags_gi (wrapped ''h4'')"
  "tag_pattern flags_gi (wrapped ''h5'')" "tag_pattern flags_gi (wrapped ''h6'')"
  "tag_pattern flags_gi (wrapped ''p'')"
  "tag_pattern flags_gi (wrapped_alt [''strong'', ''b''])"
  "tag_pattern flags_gi (wrapped_alt [''em'', ''i''])"
  "tag_pattern flags_gi (wrapped ''code'')" "tag_pattern flags_gi (wrapped ''pre'')"
  "tag_pattern flags_gi rx_link"
  "tag_pattern flags_gi (rx_img2 ''src'' ''alt'')" "tag_pattern flags_gi (rx_img2 ''alt'' ''src'')"
  "tag_pattern flags_gi rx_img1"
  "tag_pattern flags_gis (wrapped ''ul'')" "tag_pattern flags_gis (wrapped ''ol'')"
  "tag_pattern flags_gi rx_br"
  "tag_pattern flags_g rx_tag"
  by (simp_all add: wrapped_def wrapped_alt_def rx_link_def rx_img2_def rx_img1_def rx_br_def
        rx_tag_def lits_def js_def flags_gi_def flags_gis_def flags_g_def canon_def not_gt_def
        quote_def not_quote_def)

lemma has_blank_lines_count:
  "has_blank_lines s \<Longrightarrow> 3 \<le> length (filter (\<lambda>c. c = 0x0A) s)"
  by (auto simp: has_blank_lines_def)

section \<open>Claims about the conversion's outcome\<close>

text \<open>
  C1. When \<open>convertPageToMarkdown\<close> returns the success variant, its markdown is not empty
  and not made of white space only. In particular a rendered text that trims to the empty
  string gives the failure variant: on the generic path for the page's content, on the
  claude.ai path when no element's conversion gives a text that is not blank.
\<close>

theorem success_markdown_not_blank:
  "(convertPageToMarkdown e document = Inr (Success markdown) \<longrightarrow>
      markdown \<noteq> [] \<and> trim markdown \<noteq> [] \<and> (\<exists>c\<in>set markdown. \<not> is_space c))
   \<and> (\<not> isClaudeAiSite e \<and> body document = Some b
        \<and> extractPageContent e (outerHTML b) = Some article \<and> content article = Some c
        \<and> trim (convertHtmlToMarkdown c) = [] \<longrightarrow>
        (\<exists>reason. convertPageToMarkdown e document = Inr (Failure reason)))
   \<and> (isClaudeAiSite e \<and> extractClaudeAiElements document = Inr elements
        \<and> (\<forall>el\<in>set elements. \<forall>md. convertElementToMarkdown e el = Some md \<longrightarrow> trim md = [])
        \<longrightarrow> (\<exists>reason. convertPageToMarkdown e document = Inr (Failure reason)))"
proof (intro conjI impI)
  assume ok: "convertPageToMarkdown e document = Inr (Success markdown)"
  have t: "trim markdown \<noteq> []"
  proof (cases "isClaudeAiSite e")
    case True
    with ok have "processClaudeAiPage e document = Inr (Success markdown)"
      by (simp add: convertPageToMarkdown_def)
    then show ?thesis using claude_success_not_blank trim_nonempty_iff by blast
  next
    case False
    with ok have "convertPageToMarkdown_generic e document = Inr (Success markdown)"
      by (simp add: convertPageToMarkdown_def)
    then show ?thesis by (rule generic_success_not_blank)
  qed
  then show "trim markdown \<noteq> []" .
  from t show "\<exists>c\<in>set markdown. \<not> is_space c" by (simp add: trim_nonempty_iff)
  then show "markdown \<noteq> []" by auto
next
  assume "\<not> isClaudeAiSite e \<and> body document = Some b
        \<and> extractPageContent e (outerHTML b) = Some article \<and> content article = Some c
        \<and> trim (convertHtmlToMarkdown c) = []"
  then show "\<exists>reason. convertPageToMarkdown e document = Inr (Failure reason)"
    by (simp add: convertPageToMarkdown_def convertPageToMarkdown_generic_def
          convertPageToMarkdown_try_def convertToMarkdown_def Let_def)
next
  assume a: "isClaudeAiSite e \<and> extractClaudeAiElements document = Inr elements
        \<and> (\<forall>el\<in>set elements. \<forall>md. convertElementToMarkdown e el = Some md \<longrightarrow> trim md = [])"
  then have "filter (element_survives e) elements = []"
    by (auto simp: filter_empty_conv element_survives_def split: option.splits)
  with a show "\<exists>reason. convertPageToMarkdown e document = Inr (Failure reason)"
    by (simp add: convertPageToMarkdown_def claude_result)
qed

theorem success_markdown_not_blank_witness:
  "convertPageToMarkdown (test_env (Some (js ''example.com'')))
      (test_document (Some (js ''<p>x</p>'')) [] []) = Inr (Success (js ''x''))
   \<and> js ''x'' \<noteq> [] \<and> trim (js ''x'') \<noteq> []
   \<and> trim (convertHtmlToMarkdown (js ''<br>'')) = []
   \<and> (\<exists>reason. convertPageToMarkdown (test_env (Some (js ''example.com'')))
         (test_document (Some (js ''<br>'')) [] []) = Inr (Failure reason))
   \<and> (\<exists>reason. convertPageToMarkdown (test_env (Some (js ''claude.ai'')))
         (test_document None [js ''<br>'', js ''null''] []) = Inr (Failure reason))"
proof -
  let ?g = "test_env (Some (js ''example.com''))"
  let ?s = "test_env (Some (js ''claude.ai''))"
  let ?d1 = "test_document (Some (js ''<p>x</p>'')) [] []"
  let ?d2 = "test_document (Some (js ''<br>'')) [] []"
  let ?d3 = "test_document None [js ''<br>'', js ''null''] []"
  have ok: "convertPageToMarkdown ?g ?d1 = Inr (Success (js ''x''))"
    by code_simp
  have blank: "trim (convertHtmlToMarkdown (js ''<br>'')) = []"
    by code_simp
  have h2: "\<not> isClaudeAiSite ?g \<and> body ?d2 = Some \<lparr>outerHTML = js ''<br>''\<rparr>
        \<and> extractPageContent ?g (outerHTML \<lparr>outerHTML = js ''<br>''\<rparr>)
            = Some (test_article (Some (js ''<br>'')))
        \<and> content (test_article (Some (js ''<br>''))) = Some (js ''<br>'')
        \<and> trim (convertHtmlToMarkdown (js ''<br>'')) = []"
    by code_simp
  have h3: "isClaudeAiSite ?s \<and> extractClaudeAiElements ?d3
          = Inr [\<lparr>outerHTML = js ''<br>''\<rparr>, \<lparr>outerHTML = js ''null''\<rparr>]
        \<and> (\<forall>el\<in>set [\<lparr>outerHTML = js ''<br>''\<rparr>, \<lparr>outerHTML = js ''null''\<rparr>].
             \<forall>md. convertElementToMarkdown ?s el = Some md \<longrightarrow> trim md = [])"
  proof (intro conjI)
    show "isClaudeAiSite ?s" by code_simp
    show "extractClaudeAiElements ?d3
          = Inr [\<lparr>outerHTML = js ''<br>''\<rparr>, \<lparr>outerHTML = js ''null''\<rparr>]"
      by code_simp
    have "convertElementToMarkdown ?s \<lparr>outerHTML = js ''<br>''\<rparr> = Some []" by code_simp
    moreover have "convertElementToMarkdown ?s \<lparr>outerHTML = js ''null''\<rparr> = None" by code_simp
    ultimately show "\<forall>el\<in>set [\<lparr>outerHTML = js ''<br>''\<rparr>, \<lparr>outerHTML = js ''null''\<rparr>].
             \<forall>md. convertElementToMarkdown ?s el = Some md \<longrightarrow> trim md = []"
      by (simp add: trim_def)
  qed
  from success_markdown_not_blank [of ?g ?d1 "js ''x''"] ok
  have p1: "js ''x'' \<noteq> [] \<and> trim (js ''x'') \<noteq> []" by blast
  from success_markdown_not_blank [of ?g ?d2 _ "\<lparr>outerHTML = js ''<br>''\<rparr>"
        "test_article (Some (js ''<br>''))" "js ''<br>''"] h2
  have p2: "\<exists>reason. convertPageToMarkdown ?g ?d2 = Inr (Failure reason)" by blast
  from success_markdown_not_blank [of ?s ?d3 _ _ _ _
        "[\<lparr>outerHTML = js ''<br>''\<rparr>, \<lparr>outerHTML = js ''null''\<rparr>]"] h3
  have p3: "\<exists>reason. convertPageToMarkdown ?s ?d3 = Inr (Failure reason)" by blast
  from ok p1 blank p2 p3 show ?thesis by blast
qed

text \<open>
  C2. The router chooses the claude.ai strategy exactly when the host name contains
  \<open>claude.ai\<close> as a substring, and the generic strategy otherwise, also when there is no
  location or the host name is empty. The test is a total function to the booleans: there
  is no error path.
\<close>

theorem site_router_substring:
  "isClaudeAiSite e
     = (\<exists>loc a b. location e = Some loc \<and> hostname loc = a @ js ''claude.ai'' @ b)
   \<and> convertPageToMarkdown e document
     = (if \<exists>loc a b. location e = Some loc \<and> hostname loc = a @ js ''claude.ai'' @ b
        then processClaudeAiPage e document
        else convertPageToMarkdown_generic e document)"
proof -
  have r: "isClaudeAiSite e
     = (\<exists>loc a b. location e = Some loc \<and> hostname loc = a @ js ''claude.ai'' @ b)"
    by (cases "location e") (simp_all add: isClaudeAiSite_def includes_str_iff CLAUDE_AI_DOMAIN_def)
  show ?thesis
    using r by (simp add: convertPageToMarkdown_def)
qed

theorem site_router_substring_witness:
  "isClaudeAiSite (test_env (Some (js ''claude.ai'')))
   \<and> isClaudeAiSite (test_env (Some (js ''www.claude.ai'')))
   \<and> isClaudeAiSite (test_env (Some (js ''fake-claude.ai.evil.com'')))
   \<and> convertPageToMarkdown (test_env (Some (js ''fake-claude.ai.evil.com''))) (test_document None [] [])
       = processClaudeAiPage (test_env (Some (js ''fake-claude.ai.evil.com''))) (test_document None [] [])
   \<and> \<not> isClaudeAiSite (test_env (Some (js ''example.com'')))
   \<and> \<not> isClaudeAiSite (test_env (Some []))
   \<and> \<not> isClaudeAiSite (test_env None)
   \<and> (\<nexists>a b. js ''example.com'' = a @ js ''claude.ai'' @ b)
   \<and> convertPageToMarkdown (test_env None) (test_document None [] [])
       = convertPageToMarkdown_generic (test_env None) (test_document None [] [])"
proof -
  let ?d = "test_document None [] []"
  have loc: "\<And>h. location (test_env (Some h)) = Some \<lparr>hostname = h, href = js ''https://'' @ h @ js ''/''\<rparr>"
    by (simp add: test_env_def)
  have none: "location (test_env None) = None" by (simp add: test_env_def)
  have e1: "js ''claude.ai'' = [] @ js ''claude.ai'' @ []" by simp
  have e2: "js ''www.claude.ai'' = js ''www.'' @ js ''claude.ai'' @ []" by (simp add: js_def)
  have e3: "js ''fake-claude.ai.evil.com'' = js ''fake-'' @ js ''claude.ai'' @ js ''.evil.com''"
    by (simp add: js_def)
  have ex: "\<exists>loc a b. location (test_env (Some h)) = Some loc \<and> hostname loc = a @ js ''claude.ai'' @ b"
    if "h = a @ js ''claude.ai'' @ b" for h a b
  proof (intro exI conjI)
    show "location (test_env (Some h)) = Some \<lparr>hostname = h, href = js ''https://'' @ h @ js ''/''\<rparr>"
      by (rule loc)
    show "hostname \<lparr>hostname = h, href = js ''https://'' @ h @ js ''/''\<rparr> = a @ js ''claude.ai'' @ b"
      using that by simp
  qed
  have s1: "isClaudeAiSite (test_env (Some (js ''claude.ai'')))"
    using site_router_substring [of "test_env (Some (js ''claude.ai''))" ?d] ex [OF e1] by blast
  have s2: "isClaudeAiSite (test_env (Some (js ''www.claude.ai'')))"
    using site_router_substring [of "test_env (Some (js ''www.claude.ai''))" ?d] ex [OF e2] by blast
  have s3: "isClaudeAiSite (test_env (Some (js ''fake-claude.ai.evil.com'')))"
    using site_router_substring [of "test_env (Some (js ''fake-claude.ai.evil.com''))" ?d] ex [OF e3]
    by blast
  have s3': "convertPageToMarkdown (test_env (Some (js ''fake-claude.ai.evil.com''))) ?d
       = processClaudeAiPage (test_env (Some (js ''fake-claude.ai.evil.com''))) ?d"
    using s3 by (simp only: convertPageToMarkdown_def if_True)
  have n1: "\<not> isClaudeAiSite (test_env (Some (js ''example.com'')))" by code_simp
  have n2: "\<not> isClaudeAiSite (test_env (Some []))" by code_simp
  have n3: "\<not> isClaudeAiSite (test_env None)" by code_simp
  have "\<not> (\<exists>loc a b. location (test_env (Some (js ''example.com''))) = Some loc
          \<and> hostname loc = a @ js ''claude.ai'' @ b)"
    using n1 site_router_substring [of "test_env (Some (js ''example.com''))" ?d] by blast
  then have n1': "\<nexists>a b. js ''example.com'' = a @ js ''claude.ai'' @ b"
    using ex by blast
  have n3': "convertPageToMarkdown (test_env None) ?d = convertPageToMarkdown_generic (test_env None) ?d"
    using n3 by (simp only: convertPageToMarkdown_def if_False)
  from s1 s2 s3 s3' n1 n2 n3 n1' n3' show ?thesis by blast
qed

text \<open>
  C8. On the claude.ai path, a document in which no element bears the attribute
  \<open>data-test-render-count\<close> gives the failure whose reason says that no target element was
  found.
\<close>

theorem no_marker_elements_failure:
  assumes "isClaudeAiSite e" and "extractClaudeAiElements document = Inr []"
  shows "convertPageToMarkdown e document = Inr (Failure CLAUDE_AI_NO_ELEMENTS_ERROR)"
  using assms by (simp add: convertPageToMarkdown_def claude_result)

theorem no_marker_elements_failure_witness:
  "convertPageToMarkdown (test_env (Some (js ''claude.ai''))) (test_document (Some (js ''<p>x</p>'')) [] [])
     = Inr (Failure CLAUDE_AI_NO_ELEMENTS_ERROR)"
proof -
  have h1: "isClaudeAiSite (test_env (Some (js ''claude.ai'')))" by code_simp
  have h2: "extractClaudeAiElements (test_document (Some (js ''<p>x</p>'')) [] []) = Inr []"
    by code_simp
  show ?thesis by (rule no_marker_elements_failure [OF h1 h2])
qed

text \<open>
  C10. On the generic path, a document whose body is \<open>null\<close> gives the failure variant: the
  exception of reading the body's markup is raised inside the \<open>try\<close> block and the \<open>catch\<close>
  turns it into a failure with the exception's message.
\<close>

theorem bodyless_document_failure:
  assumes "\<not> isClaudeAiSite e" and "body document = None"
  shows "convertPageToMarkdown_try e document = Inl (JsError (null_property_message e))
     \<and> convertPageToMarkdown e document = Inr (Failure (null_property_message e))"
  using assms
  by (simp add: convertPageToMarkdown_def convertPageToMarkdown_generic_def
        convertPageToMarkdown_try_def errorMessage_def)

theorem bodyless_document_failure_witness:
  "convertPageToMarkdown (test_env (Some (js ''example.com''))) (test_document None [] [])
     = Inr (Failure (js ''Cannot read properties of null''))"
proof -
  have h1: "\<not> isClaudeAiSite (test_env (Some (js ''example.com'')))" by code_simp
  have h2: "body (test_document None [] []) = None" by (simp add: test_document_def)
  have m: "null_property_message (test_env (Some (js ''example.com''))) = js ''Cannot read properties of null''"
    by (simp add: test_env_def)
  from bodyless_document_failure [OF h1 h2] m show ?thesis by simp
qed

text \<open>
  C3. On the claude.ai path, for a document with at least one marked element: when some
  element survives (its conversion neither throws nor gives \<open>null\<close> nor a blank text), the
  result is the success whose markdown is the trimmed fragments of the surviving elements,
  in document order, joined by the separator; the number of fragments is the number of
  elements less the number of failures. The result is a failure only when no element
  survives.
\<close>

theorem claude_fragments_joined:
  assumes "isClaudeAiSite e"
    and "extractClaudeAiElements document = Inr elements"
    and "elements \<noteq> []"
  shows "convertPageToMarkdown e document =
     (if filter (element_survives e) elements = [] then Inr (Failure EMPTY_MARKDOWN_ERROR)
      else Inr (Success (join (js ''\<newline>\<newline>---\<newline>\<newline>'')
             (map (element_fragment e) (filter (element_survives e) elements)))))
   \<and> length (filter (element_survives e) elements)
     = length elements - length (filter (\<lambda>el. \<not> element_survives e el) elements)"
proof
  show "convertPageToMarkdown e document =
     (if filter (element_survives e) elements = [] then Inr (Failure EMPTY_MARKDOWN_ERROR)
      else Inr (Success (join (js ''\<newline>\<newline>---\<newline>\<newline>'')
             (map (element_fragment e) (filter (element_survives e) elements)))))"
    using assms by (simp add: convertPageToMarkdown_def claude_result SECTION_SEPARATOR_def)
  have "length (filter (element_survives e) elements)
      + length (filter (\<lambda>el. \<not> element_survives e el) elements) = length elements"
    by (rule sum_length_filter_compl)
  then show "length (filter (element_survives e) elements)
     = length elements - length (filter (\<lambda>el. \<not> element_survives e el) elements)"
    by simp
qed

theorem claude_fragments_joined_witness:
  "convertPageToMarkdown (test_env (Some (js ''claude.ai'')))
     (test_document None
        [js ''<p>x</p>'', js ''throw'', js ''null'', js ''bare'', js ''<br>'', js ''<b>y</b>''] [])
   = Inr (Success (js ''x\<newline>\<newline>---\<newline>\<newline>**y**''))"
proof -
  let ?e = "test_env (Some (js ''claude.ai''))"
  let ?els = "[\<lparr>outerHTML = js ''<p>x</p>''\<rparr>, \<lparr>outerHTML = js ''throw''\<rparr>,
     \<lparr>outerHTML = js ''null''\<rparr>, \<lparr>outerHTML = js ''bare''\<rparr>, \<lparr>outerHTML = js ''<br>''\<rparr>,
     \<lparr>outerHTML = js ''<b>y</b>''\<rparr>]"
  let ?d = "test_document None
        [js ''<p>x</p>'', js ''throw'', js ''null'', js ''bare'', js ''<br>'', js ''<b>y</b>''] []"
  have h1: "isClaudeAiSite ?e" by code_simp
  have h2: "extractClaudeAiElements ?d = Inr ?els" by code_simp
  have h3: "?els \<noteq> []" by simp
  have ok: "filter (element_survives ?e) ?els
      = [\<lparr>outerHTML = js ''<p>x</p>''\<rparr>, \<lparr>outerHTML = js ''<b>y</b>''\<rparr>]"
    by code_simp
  have fr: "map (element_fragment ?e)
       [\<lparr>outerHTML = js ''<p>x</p>''\<rparr>, \<lparr>outerHTML = js ''<b>y</b>''\<rparr>] = [js ''x'', js ''**y**'']"
    by code_simp
  have jn: "join (js ''\<newline>\<newline>---\<newline>\<newline>'') [js ''x'', js ''**y**'']
      = js ''x\<newline>\<newline>---\<newline>\<newline>**y**''"
    by (simp add: js_def)
  from claude_fragments_joined [OF h1 h2 h3, THEN conjunct1] show ?thesis
    by (simp only: ok fr jn) simp
qed

text \<open>
  C4. On the generic path, for a document with a body: when the extraction gives \<open>null\<close>
  the result is the failure \<open>EXTRACTION_ERROR\<close>, and when it gives an article whose content
  is missing, empty or blank the result is the failure \<open>CONTENT_PROPERTY_ERROR\<close>.
\<close>

theorem generic_extraction_failures:
  assumes "\<not> isClaudeAiSite e" and "body document = Some b"
  shows "(extractPageContent e (outerHTML b) = None \<longrightarrow>
            convertPageToMarkdown e document = Inr (Failure EXTRACTION_ERROR))
     \<and> (\<forall>article. extractPageContent e (outerHTML b) = Some article
            \<and> (content article = None \<or> (\<exists>c. content article = Some c \<and> trim c = []))
          \<longrightarrow> convertPageToMarkdown e document = Inr (Failure CONTENT_PROPERTY_ERROR))"
  using assms
  by (auto simp: convertPageToMarkdown_def convertPageToMarkdown_generic_def
        convertPageToMarkdown_try_def convertToMarkdown_def errorMessage_def Let_def)

theorem generic_extraction_failures_witness:
  "convertPageToMarkdown (test_env (Some (js ''example.com''))) (test_document (Some (js ''null'')) [] [])
     = Inr (Failure EXTRACTION_ERROR)
   \<and> convertPageToMarkdown (test_env (Some (js ''example.com''))) (test_document (Some (js ''bare'')) [] [])
     = Inr (Failure CONTENT_PROPERTY_ERROR)
   \<and> convertPageToMarkdown (test_env (Some (js ''example.com''))) (test_document (Some (js ''  '')) [] [])
     = Inr (Failure CONTENT_PROPERTY_ERROR)"
proof -
  let ?e = "test_env (Some (js ''example.com''))"
  have h1: "\<not> isClaudeAiSite ?e" by code_simp
  have b: "body (test_document (Some h) [] []) = Some \<lparr>outerHTML = h\<rparr>" for h
    by (simp add: test_document_def)
  have x1: "extractPageContent ?e (outerHTML \<lparr>outerHTML = js ''null''\<rparr>) = None" by code_simp
  have x2: "extractPageContent ?e (outerHTML \<lparr>outerHTML = js ''bare''\<rparr>) = Some (test_article None)"
    by code_simp
  have c2: "content (test_article None) = None" by (simp add: test_article_def)
  have x3: "extractPageContent ?e (outerHTML \<lparr>outerHTML = js ''  ''\<rparr>)
      = Some (test_article (Some (js ''  '')))"
    by code_simp
  have c3: "content (test_article (Some (js ''  ''))) = Some (js ''  '') \<and> trim (js ''  '') = []"
    by code_simp
  from generic_extraction_failures [OF h1 b, of "js ''null''"] x1
  have p1: "convertPageToMarkdown ?e (test_document (Some (js ''null'')) [] [])
     = Inr (Failure EXTRACTION_ERROR)" by blast
  from generic_extraction_failures [OF h1 b, of "js ''bare''"] x2 c2
  have p2: "convertPageToMarkdown ?e (test_document (Some (js ''bare'')) [] [])
     = Inr (Failure CONTENT_PROPERTY_ERROR)" by blast
  from generic_extraction_failures [OF h1 b, of "js ''  ''"] x3 c3
  have p3: "convertPageToMarkdown ?e (test_document (Some (js ''  '')) [] [])
     = Inr (Failure CONTENT_PROPERTY_ERROR)" by blast
  from p1 p2 p3 show ?thesis by blast
qed

section \<open>Claims about exceptions\<close>

text \<open>
  C5 as it is written does not hold for an exception of the extraction library. On the
  generic path the library's \<open>Error("boom")\<close> gives the failure \<open>EXTRACTION_ERROR\<close>, not a
  failure with the message \<open>boom\<close>; on the claude.ai path the exception of one element is
  dropped and the other element still gives a success.
\<close>

theorem library_exception_message_lost:
  "readability (test_env (Some (js ''example.com'')))
      (outerHTML \<lparr>outerHTML = js ''throw''\<rparr>) MINIMUM_CHAR_THRESHOLD
     = Inl (JsError (js ''boom''))
   \<and> body (test_document (Some (js ''throw'')) [] []) = Some \<lparr>outerHTML = js ''throw''\<rparr>
   \<and> convertPageToMarkdown (test_env (Some (js ''example.com'')))
        (test_document (Some (js ''throw'')) [] [])
     \<noteq> Inr (Failure (errorMessage (JsError (js ''boom''))))
   \<and> readability (test_env (Some (js ''claude.ai'')))
      (outerHTML \<lparr>outerHTML = js ''throw''\<rparr>) MINIMUM_CHAR_THRESHOLD
     = Inl (JsError (js ''boom''))
   \<and> convertPageToMarkdown (test_env (Some (js ''claude.ai'')))
        (test_document None [js ''throw'', js ''<p>x</p>''] [])
     = Inr (Success (js ''x''))"
  by code_simp

text \<open>
  C5, amended. No exception leaves \<open>convertPageToMarkdown\<close>: it always returns a result. An
  exception that leaves the \<open>try\<close> block of the entry point or of \<open>processClaudeAiPage\<close>
  becomes the failure whose reason is the exception's message when the thrown value is an
  \<open>Error\<close> and \<open>DEFAULT_ERROR_MESSAGE\<close> otherwise. An exception of the extraction library
  does not reach those blocks: \<open>extractPageContent\<close> turns it into \<open>null\<close>, which on the
  generic path is the failure \<open>EXTRACTION_ERROR\<close> and on the claude.ai path a skipped
  element.
\<close>

theorem entry_point_never_throws:
  "(\<exists>result. convertPageToMarkdown e document = Inr result)
   \<and> (isClaudeAiSite e \<and> processClaudeAiPage_try e document = Inl err \<longrightarrow>
        convertPageToMarkdown e document = Inr (Failure (errorMessage err)))
   \<and> (\<not> isClaudeAiSite e \<and> convertPageToMarkdown_try e document = Inl err \<longrightarrow>
        convertPageToMarkdown e document = Inr (Failure (errorMessage err)))
   \<and> errorMessage (JsError msg) = msg
   \<and> errorMessage JsOther = DEFAULT_ERROR_MESSAGE
   \<and> (readability e html MINIMUM_CHAR_THRESHOLD = Inl err \<longrightarrow> extractPageContent e html = None)
   \<and> (\<not> isClaudeAiSite e \<and> body document = Some b
        \<and> readability e (outerHTML b) MINIMUM_CHAR_THRESHOLD = Inl err \<longrightarrow>
        convertPageToMarkdown e document = Inr (Failure EXTRACTION_ERROR))
   \<and> (readability e (outerHTML element) MINIMUM_CHAR_THRESHOLD = Inl err \<longrightarrow>
        convertElementToMarkdown e element = None)"
proof (intro conjI impI)
  show "\<exists>result. convertPageToMarkdown e document = Inr result"
    by (simp add: convertPageToMarkdown_def convertPageToMarkdown_generic_def
          processClaudeAiPage_def split: sum.splits)
  show "convertPageToMarkdown e document = Inr (Failure (errorMessage err))"
    if "isClaudeAiSite e \<and> processClaudeAiPage_try e document = Inl err"
    using that by (simp add: convertPageToMarkdown_def processClaudeAiPage_def)
  show "convertPageToMarkdown e document = Inr (Failure (errorMessage err))"
    if "\<not> isClaudeAiSite e \<and> convertPageToMarkdown_try e document = Inl err"
    using that by (simp add: convertPageToMarkdown_def convertPageToMarkdown_generic_def)
  show "errorMessage (JsError msg) = msg" by (simp add: errorMessage_def)
  show "errorMessage JsOther = DEFAULT_ERROR_MESSAGE" by (simp add: errorMessage_def)
  show "extractPageContent e html = None" if "readability e html MINIMUM_CHAR_THRESHOLD = Inl err"
    using that by (simp add: extractPageContent_def)
  show "convertPageToMarkdown e document = Inr (Failure EXTRACTION_ERROR)"
    if "\<not> isClaudeAiSite e \<and> body document = Some b
        \<and> readability e (outerHTML b) MINIMUM_CHAR_THRESHOLD = Inl err"
    using that
    by (simp add: convertPageToMarkdown_def convertPageToMarkdown_generic_def
          convertPageToMarkdown_try_def extractPageContent_def)
  show "convertElementToMarkdown e element = None"
    if "readability e (outerHTML element) MINIMUM_CHAR_THRESHOLD = Inl err"
    using that by (simp add: convertElementToMarkdown_def extractPageContent_def)
qed

theorem entry_point_never_throws_witness:
  "(\<exists>result. convertPageToMarkdown (test_env (Some (js ''claude.ai'')))
        ((test_document None [] [])\<lparr>querySelectorAll := \<lambda>selector. Inl JsOther\<rparr>) = Inr result)
   \<and> convertPageToMarkdown (test_env (Some (js ''claude.ai'')))
        ((test_document None [] [])\<lparr>querySelectorAll := \<lambda>selector. Inl JsOther\<rparr>)
      = Inr (Failure DEFAULT_ERROR_MESSAGE)
   \<and> convertPageToMarkdown (test_env (Some (js ''example.com''))) (test_document None [] [])
      = Inr (Failure (js ''Cannot read properties of null''))
   \<and> extractPageContent (test_env (Some (js ''example.com''))) (js ''throw'') = None
   \<and> convertPageToMarkdown (test_env (Some (js ''example.com'')))
        (test_document (Some (js ''throw'')) [] [])
      = Inr (Failure EXTRACTION_ERROR)
   \<and> convertElementToMarkdown (test_env (Some (js ''claude.ai''))) \<lparr>outerHTML = js ''throw''\<rparr> = None"
proof -
  let ?s = "test_env (Some (js ''claude.ai''))"
  let ?g = "test_env (Some (js ''example.com''))"
  let ?d1 = "(test_document None [] [])\<lparr>querySelectorAll := \<lambda>selector. Inl JsOther\<rparr>"
  let ?d2 = "test_document None [] []"
  let ?d3 = "test_document (Some (js ''throw'')) [] []"
  let ?b = "\<lparr>outerHTML = js ''throw''\<rparr>"
  have s: "isClaudeAiSite ?s" by code_simp
  have g: "\<not> isClaudeAiSite ?g" by code_simp
  have t1: "processClaudeAiPage_try ?s ?d1 = Inl JsOther"
    by (simp add: processClaudeAiPage_try_def extractClaudeAiElements_def)
  have t2: "convertPageToMarkdown_try ?g ?d2 = Inl (JsError (js ''Cannot read properties of null''))"
    by (simp add: convertPageToMarkdown_try_def test_document_def test_env_def)
  have r: "readability ?g (js ''throw'') MINIMUM_CHAR_THRESHOLD = Inl (JsError (js ''boom''))"
    by (simp add: test_env_def test_readability_def)
  have r': "readability ?s (outerHTML ?b) MINIMUM_CHAR_THRESHOLD = Inl (JsError (js ''boom''))"
    by (simp add: test_env_def test_readability_def)
  have b3: "body ?d3 = Some ?b" by (simp add: test_document_def)
  have rb: "readability ?g (outerHTML ?b) MINIMUM_CHAR_THRESHOLD = Inl (JsError (js ''boom''))"
    using r by simp
  note w1 = entry_point_never_throws [of ?s ?d1 JsOther]
  note w2 = entry_point_never_throws [of ?g ?d2 "JsError (js ''Cannot read properties of null'')"
      "js ''Cannot read properties of null''"]
  note w3 = entry_point_never_throws [of ?g ?d3 "JsError (js ''boom'')" _ "js ''throw''" ?b]
  note w4 = entry_point_never_throws [of ?s ?d1 "JsError (js ''boom'')" _ _ _ ?b]
  have p1: "\<exists>result. convertPageToMarkdown ?s ?d1 = Inr result" using w1 by blast
  have p2: "convertPageToMarkdown ?s ?d1 = Inr (Failure DEFAULT_ERROR_MESSAGE)"
    using w1 s t1 by metis
  have p3: "convertPageToMarkdown ?g ?d2 = Inr (Failure (js ''Cannot read properties of null''))"
    using w2 g t2 by metis
  have p4: "extractPageContent ?g (js ''throw'') = None" using w3 r by blast
  have p5: "convertPageToMarkdown ?g ?d3 = Inr (Failure EXTRACTION_ERROR)"
    using w3 g b3 rb by blast
  have p6: "convertElementToMarkdown ?s ?b = None" using w4 r' by blast
  from p1 p2 p3 p4 p5 p6 show ?thesis by blast
qed

section \<open>Claims about the content script\<close>

text \<open>
  C9 as it is written does not hold for a page with an empty title: the header that
  reaches the clipboard carries the placeholder of the source, not the empty title.
\<close>

theorem untitled_page_header:
  "convertPageToMarkdown (test_env (Some (js ''example.com'')))
      (test_document (Some (js ''<p>x</p>'')) [] []) = Inr (Success (js ''x''))
   \<and> title (test_document (Some (js ''<p>x</p>'')) [] []) = []
   \<and> map_option href (location (test_env (Some (js ''example.com''))))
       = Some (js ''https://example.com/'')
   \<and> handleConvertToMarkdown (test_env (Some (js ''example.com'')))
      (test_document (Some (js ''<p>x</p>'')) [] [])
     = [CopyToClipboard (js ''# '' @ [0x7121, 0x984C] @ js ''\<newline>\<newline>URL: ''
          @ js ''https://example.com/'' @ js ''\<newline>\<newline>---\<newline>\<newline>'' @ js ''x''),
        ShowSuccessToast SUCCESS_COPY_MESSAGE]
   \<and> CopyToClipboard (js ''# '' @ [] @ js ''\<newline>\<newline>URL: ''
          @ js ''https://example.com/'' @ js ''\<newline>\<newline>---\<newline>\<newline>'' @ js ''x'')
     \<notin> set (handleConvertToMarkdown (test_env (Some (js ''example.com'')))
          (test_document (Some (js ''<p>x</p>'')) [] []))"
  by code_simp

text \<open>
  C9, amended. After a successful conversion the content script hands exactly one text to
  the clipboard: \<open># \<close>, the page's title (the placeholder \<open>UNTITLED\<close> when the title is
  empty), \<open>\n\nURL: \<close>, the page's URL (empty when there is no location), the separator
  \<open>\n\n---\n\n\<close> and the markdown of the conversion, with nothing before or after. One
  toast follows.
\<close>

theorem clipboard_text_format:
  assumes "convertPageToMarkdown e document = Inr (Success markdown)"
  shows "\<exists>toast. handleConvertToMarkdown e document =
     [CopyToClipboard
        (js ''# '' @ (if title document = [] then [0x7121, 0x984C] else title document)
         @ js ''\<newline>\<newline>URL: ''
         @ (case location e of None \<Rightarrow> [] | Some loc \<Rightarrow> href loc)
         @ js ''\<newline>\<newline>---\<newline>\<newline>'' @ markdown),
      toast]
     \<and> (toast = ShowSuccessToast SUCCESS_COPY_MESSAGE \<or> (\<exists>msg. toast = ShowErrorToast msg))"
proof -
  have u: "(case location e of None \<Rightarrow> [] | Some loc \<Rightarrow> or_else (href loc) [])
      = (case location e of None \<Rightarrow> [] | Some loc \<Rightarrow> href loc)"
    by (simp add: or_else_def split: option.splits)
  show ?thesis
    using assms
    by (auto simp: handleConvertToMarkdown_def createMarkdownHeader_def Let_def u or_else_def
          UNTITLED_def MARKDOWN_SEPARATOR_def split: sum.splits)
qed

theorem clipboard_text_format_witness:
  "\<exists>toast. handleConvertToMarkdown (test_env (Some (js ''example.com'')))
      (test_document (Some (js ''<p>x</p>'')) [] (js ''Page''))
     = [CopyToClipboard (js ''# Page\<newline>\<newline>URL: https://example.com/\<newline>\<newline>---\<newline>\<newline>x''), toast]"
proof -
  let ?e = "test_env (Some (js ''example.com''))"
  let ?d = "test_document (Some (js ''<p>x</p>'')) [] (js ''Page'')"
  have ok: "convertPageToMarkdown ?e ?d = Inr (Success (js ''x''))" by code_simp
  have l: "location ?e = Some \<lparr>hostname = js ''example.com'', href = js ''https://example.com/''\<rparr>"
    by (simp add: test_env_def js_def)
  have ti: "title ?d = js ''Page'' \<and> js ''Page'' \<noteq> []" by (simp add: test_document_def js_def)
  have tx: "js ''# '' @ js ''Page'' @ js ''\<newline>\<newline>URL: '' @ js ''https://example.com/''
       @ js ''\<newline>\<newline>---\<newline>\<newline>'' @ js ''x''
     = js ''# Page\<newline>\<newline>URL: https://example.com/\<newline>\<newline>---\<newline>\<newline>x''"
    by (simp add: js_def)
  from clipboard_text_format [OF ok] obtain toast where
    "handleConvertToMarkdown ?e ?d =
     [CopyToClipboard
        (js ''# '' @ (if title ?d = [] then [0x7121, 0x984C] else title ?d)
         @ js ''\<newline>\<newline>URL: ''
         @ (case location ?e of None \<Rightarrow> [] | Some loc \<Rightarrow> href loc)
         @ js ''\<newline>\<newline>---\<newline>\<newline>'' @ js ''x''),
      toast]" by blast
  then have "handleConvertToMarkdown ?e ?d =
     [CopyToClipboard (js ''# Page\<newline>\<newline>URL: https://example.com/\<newline>\<newline>---\<newline>\<newline>x''), toast]"
    using ti tx by (simp add: l)
  then show ?thesis by blast
qed

section \<open>Claims about the renderer\<close>

text \<open>
  C7 as it is written does not hold: a text without tags is not always returned trimmed.
  An entity in it is decoded, and three line feeds in a row become two.
\<close>

theorem plain_text_not_returned_trimmed:
  "\<not> has_tag (js ''a &amp; b'')
   \<and> convertHtmlToMarkdown (js ''a &amp; b'') = js ''a & b''
   \<and> trim (js ''a &amp; b'') = js ''a &amp; b''
   \<and> convertHtmlToMarkdown (js ''a &amp; b'') \<noteq> trim (js ''a &amp; b'')
   \<and> \<not> has_tag (js ''a\<newline>\<newline>\<newline>b'')
   \<and> convertHtmlToMarkdown (js ''a\<newline>\<newline>\<newline>b'') = js ''a\<newline>\<newline>b''
   \<and> trim (js ''a\<newline>\<newline>\<newline>b'') = js ''a\<newline>\<newline>\<newline>b''
   \<and> convertHtmlToMarkdown (js ''a\<newline>\<newline>\<newline>b'') \<noteq> trim (js ''a\<newline>\<newline>\<newline>b'')"
  by code_simp

text \<open>
  C7, amended. For every input without a tag (no \<open><\<close> followed by one or more characters
  other than \<open>>\<close> and then \<open>>\<close>), without any of the five entities that the converter
  decodes, and without a run of white space that holds three line feeds, the converter
  returns the input trimmed of leading and trailing white space.
\<close>

theorem plain_text_returned_trimmed:
  assumes "\<not> has_tag s"
    and "\<forall>entity\<in>set entities. \<not> includes_str s entity"
    and "\<not> has_blank_lines s"
  shows "convertHtmlToMarkdown s = trim s"
proof -
  note tag = replace_str_no_tag [OF assms(1)] replace_fn_no_tag [OF assms(1)]
  have 1: "convert_headings s = s"
    by (simp add: convert_headings_def Let_def tag tag_patterns)
  have 2: "convert_paragraphs s = s"
    by (simp add: convert_paragraphs_def tag tag_patterns)
  have 3: "convert_emphasis s = s"
    by (simp add: convert_emphasis_def Let_def tag tag_patterns)
  have 4: "convert_code s = s"
    by (simp add: convert_code_def Let_def tag tag_patterns)
  have 5: "convert_links s = s"
    by (simp add: convert_links_def tag tag_patterns)
  have 6: "convert_images s = s"
    by (simp add: convert_images_def Let_def tag tag_patterns)
  have 7: "convert_lists s = s"
    by (simp add: convert_lists_def Let_def tag tag_patterns)
  have 8: "convert_breaks s = s"
    by (simp add: convert_breaks_def tag tag_patterns)
  have 9: "strip_tags s = s"
    by (simp add: strip_tags_def tag tag_patterns)
  from assms(2) have ent: "\<not> includes_str s (js ''&amp;'')" "\<not> includes_str s (js ''&lt;'')"
    "\<not> includes_str s (js ''&gt;'')" "\<not> includes_str s (js ''&quot;'')"
    "\<not> includes_str s (js ''&#39;'')"
    by (simp_all add: entities_def)
  have 10: "decode_entities s = s"
    by (simp add: decode_entities_def Let_def replace_str_no_entity ent)
  have 11: "collapse_blank_lines s = s"
    by (simp add: collapse_blank_lines_def replace_str_no_blank_lines assms(3))
  show ?thesis
    by (simp add: convertHtmlToMarkdown_def 1 2 3 4 5 6 7 8 9 10 11)
qed

theorem plain_text_returned_trimmed_witness:
  "convertHtmlToMarkdown (js ''  a < b\<newline>\<newline>c & d  '') = js ''a < b\<newline>\<newline>c & d''"
proof -
  let ?s = "js ''  a < b\<newline>\<newline>c & d  ''"
  have h1: "\<not> has_tag ?s" by code_simp
  have h2: "\<forall>entity\<in>set entities. \<not> includes_str ?s entity" by code_simp
  have "length (filter (\<lambda>c. c = 0x0A) ?s) = 2" by code_simp
  then have h3: "\<not> has_blank_lines ?s" using has_blank_lines_count [of ?s] by auto
  have t: "trim ?s = js ''a < b\<newline>\<newline>c & d''" by code_simp
  from plain_text_returned_trimmed [OF h1 h2 h3] t show ?thesis by simp
qed

text \<open>
  C6 says that an ordered list of k items becomes k lines, the i-th being \<open>i. \<close> followed by
  the item's text. The code numbers the lines but loses the text: the items of \<open>ol\<close> are
  replaced by a function, whose result is inserted without expanding \<open>$1\<close>, so every line
  reads \<open>i. $1\<close>. The items of \<open>ul\<close>, replaced by a string template, keep their text.
\<close>

theorem ordered_list_items_lose_text:
  "convertHtmlToMarkdown (js ''<ol><li>a</li><li>b</li></ol>'') = js ''1. $1\<newline>2. $1''
   \<and> convertHtmlToMarkdown (js ''<ul><li>a</li><li>b</li></ul>'') = js ''- a\<newline>- b''"
  by code_simp

end
